theory Spec2Isabelle
  imports Main "HOL-Library.Word"
begin

unbundle bit_operations_syntax

section \<open>Errors and outcomes\<close>

text \<open>
  Go errors are values compared by identity. The sentinels that the sources compare
  against are constructors of their own; an error built in place by \<^verbatim>\<open>errors.New\<close> or
  \<^verbatim>\<open>fmt.Errorf\<close> with a fixed text is \<open>ErrorString\<close>; \<^verbatim>\<open>fmt.Errorf(prefix + "%v", err)\<close>
  is \<open>Errorf\<close>, which keeps the wrapped error instead of its text. An error built in
  place is never identical to a sentinel.
\<close>

datatype error =
    ErrHashNotFound
  | ErrHashModified
  | ValidationFailedErr
  | ErrEntryTypeMismatch
  | ErrWrongNargs
  | NonDHTAction
  | NonCallableAction
  | ErrorString string
  | Errorf string error

text \<open>
  A Go function either returns or panics. A panic carries the text or the error the
  source panics with; \<open>RuntimePanic\<close> is a panic of the Go runtime (a nil dereference,
  a failed type assertion).
\<close>

datatype panic = PanicText string | PanicError error | RuntimePanic string

datatype 'a outcome = Panic panic | Returns 'a

section \<open>Action arguments\<close>

datatype ArgType =
  HashArg | StringArg | EntryArg | IntArg | BoolArg | MapArg | ToStrArg | ArgsArg

text \<open>
  An argument of an action, without the two fields that play no part in counting (the
  map type and the value).
\<close>

record Arg =
  Arg_Name :: string
  Arg_Type :: ArgType
  Optional :: bool

text \<open>
  The loop of \<^verbatim>\<open>checkArgCount\<close> that counts the arguments which are not optional,
  with the counter \<open>min\<close> as accumulator.
\<close>

fun countRequired :: "Arg list \<Rightarrow> int \<Rightarrow> int" where
  "countRequired [] m = m"
| "countRequired (a # as) m = countRequired as (if \<not> Optional a then m + 1 else m)"

definition checkArgCount :: "Arg list \<Rightarrow> int \<Rightarrow> error option" where
  "checkArgCount args l =
     (let m = countRequired args 0 in
      if l < m \<or> l > int (length args) then Some ErrWrongNargs else None)"

definition required :: "Arg list \<Rightarrow> nat" where
  "required args = length (filter (\<lambda>a. \<not> Optional a) args)"

definition ActionGet_Args :: "Arg list" where
  "ActionGet_Args =
     [\<lparr>Arg_Name = ''hash'', Arg_Type = HashArg, Optional = False\<rparr>,
      \<lparr>Arg_Name = ''options'', Arg_Type = MapArg, Optional = True\<rparr>]"

section \<open>Data model\<close>

text \<open>
  The declarations of hashes, entries, headers, entry definitions, messages and status
  codes are outside the sources at hand; the model keeps what the action code reads of
  them. Names of entry types, data formats, sharing policies and link actions are strings
  in the source, compared against named constants whose texts are declared elsewhere:
  the model keeps each named constant symbolic, as a constructor of its own, next to a
  constructor for every other string.
\<close>

type_synonym peerID = string
type_synonym bytes = string

datatype Hash = MkHash string

definition NullHash :: Hash where
  "NullHash = MkHash []"

datatype EntryType = DNAEntryType | KeyEntryType | AgentEntryType | AppEntryType string

datatype DataFormat = DataFormatJSON | DataFormatLinks | DataFormatOther string

datatype Sharing = Public | SharingOther string

datatype ChangeAction = ModAction | DelAction | OtherAction string

datatype Status = StatusDefault | StatusLive | StatusRejected | StatusModified | StatusDeleted

text \<open>
  The content of a \<^verbatim>\<open>GobEntry\<close> is an \<^verbatim>\<open>interface{}\<close>; every reader in the sources
  asserts it to be a string. The model has the nil content (\<open>None\<close>, the zero value) and
  string contents. An \<^verbatim>\<open>Entry\<close> is an interface value: \<open>None\<close> is the nil entry.
\<close>

record GobEntry =
  C :: "string option"

type_synonym Entry = "GobEntry option"

definition zeroGobEntry :: GobEntry where
  "zeroGobEntry = \<lparr>C = None\<rparr>"

text \<open>\<^verbatim>\<open>%v\<close> of a content: a string prints as itself, nil as \<^verbatim>\<open><nil>\<close>.\<close>

definition fmtContent :: "string option \<Rightarrow> string" where
  "fmtContent c = (case c of None \<Rightarrow> ''<nil>'' | Some s \<Rightarrow> s)"

record Header =
  Header_Type :: EntryType
  EntryLink :: Hash

definition zeroHeader :: Header where
  "zeroHeader = \<lparr>Header_Type = AppEntryType [], EntryLink = NullHash\<rparr>"

datatype StatusChange = MkStatusChange ChangeAction Hash

datatype Package = MkPackage string
datatype ValidationPackage = MkValidationPackage string
datatype PackagingReq = MkPackagingReq string
datatype Zome = MkZome string
datatype Ribosome = MkRibosome string

definition zeroPackage :: Package where
  "zeroPackage = MkPackage []"

datatype json =
    JNull | JBool bool | JNumber int | JString string
  | JArray "json list" | JObject "(string \<times> json) list"

text \<open>
  What a schema validator is handed: the unmarshalled JSON value for a JSON entry, the
  entry itself for every other format.
\<close>

datatype ValidatorInput = StructuredInput json | OpaqueInput GobEntry

record EntryDef =
  EntryDef_Name :: string
  DataFormat :: DataFormat
  Sharing :: Sharing
  validator :: "(ValidatorInput \<Rightarrow> error option) option"

record Link =
  Base :: string
  Link :: string
  Tag :: string
  LinkAction :: ChangeAction

record LinksEntry =
  Links :: "Link list"

record DelEntry =
  DelEntry_Hash :: Hash
  DelEntry_Message :: string

record ValidateResponse =
  Type :: EntryType
  Entry :: GobEntry
  Header :: Header
  Package :: Package

definition zeroValidateResponse :: ValidateResponse where
  "zeroValidateResponse =
     \<lparr>Type = AppEntryType [], Entry = zeroGobEntry, Header = zeroHeader, Package = zeroPackage\<rparr>"

record GetReq =
  H :: Hash
  StatusMask :: int
  GetMask :: int

record GetResp =
  GetResp_Entry :: Entry
  GetResp_EntryType :: EntryType
  Sources :: "string list"
  FollowHash :: string

definition zeroGetResp :: GetResp where
  "zeroGetResp =
     \<lparr>GetResp_Entry = None, GetResp_EntryType = AppEntryType [], Sources = [], FollowHash = []\<rparr>"

datatype MsgType =
    APP_MESSAGE | PUT_REQUEST | GET_REQUEST | MOD_REQUEST | DEL_REQUEST | LINK_REQUEST
  | GETLINK_REQUEST | VALIDATE_PUT_REQUEST | VALIDATE_MOD_REQUEST | VALIDATE_DEL_REQUEST
  | VALIDATE_LINK_REQUEST

datatype Protocol = ActionProtocol | ValidateProtocol

text \<open>
  A message body is an \<^verbatim>\<open>interface{}\<close>: one constructor per body type of the wire
  protocol, and \<open>OtherBody\<close> for a value of any other type.
\<close>

datatype Body =
    PutReq Hash
  | GetReqBody GetReq
  | ModReq Hash Hash
  | DelReq Hash Hash
  | LinkReq Hash Hash
  | ValidateQuery Hash
  | ValidateResponseBody ValidateResponse
  | OtherBody string

record Message =
  Msg_Type :: MsgType
  From :: peerID
  Body :: Body

text \<open>What \<^verbatim>\<open>Do\<close> and \<^verbatim>\<open>Receive\<close> hand back as \<^verbatim>\<open>response\<close>; \<open>None\<close> is nil.\<close>

datatype Response = StringResponse string | HashResponse Hash | GetRespResponse GetResp

text \<open>
  The action structs. \<^verbatim>\<open>CommittingAction\<close> is the interface of the actions that carry
  an entry for the local chain (commit, mod, del); \<^verbatim>\<open>ValidatingAction\<close> is the interface
  of everything \<^verbatim>\<open>ValidateAction\<close> accepts, which adds put and link.
\<close>

datatype CommittingAction =
    ActionCommit EntryType Entry
  | ActionMod EntryType Entry "Header option" Hash
  | ActionDel EntryType DelEntry

datatype ValidatingAction =
    Committing CommittingAction
  | ActionPut EntryType Entry "Header option"
  | ActionLink EntryType "Link list" Hash

section \<open>The node and its collaborators\<close>

text \<open>
  The state of a node, as far as the actions touch it: the local chain, the DHT store,
  the log of the messages handed to \<^verbatim>\<open>h.dht.Send\<close> (newest last), and the node's
  identity. The chain and the store are kept abstract: their code is not among the
  sources.
\<close>

record ('c, 'd) Holochain =
  chain :: 'c
  dht :: 'd
  sent :: "(Hash \<times> MsgType \<times> Body) list"
  nodeID :: peerID
  nodeIDStr :: string

text \<open>
  Everything the action code calls that is declared outside the sources is a field of
  the environment: the chain's and the store's operations, the application (entry
  definitions, ribosome, packaging), the network, and the library codecs. A call whose
  results the source reads only when \<^verbatim>\<open>err == nil\<close> returns a sum (\<open>Inl\<close> the error); a
  call whose results are read beside the error returns them as a tuple with the error
  last, as Go does. The time and the agent's key that \<^verbatim>\<open>PrepareHeader\<close> is handed are
  left to the environment.

  Modelled from the spec: which of these operations change the node. The spec has
  \<^verbatim>\<open>prepareHeader\<close> compute the header and the index at which it will be inserted,
  \<^verbatim>\<open>getEntry\<close> and \<^verbatim>\<open>getEntryHeader\<close> look up, and the chain grow at \<^verbatim>\<open>addEntry\<close> only;
  the store changes by \<^verbatim>\<open>put\<close>, \<^verbatim>\<open>mod\<close>, \<^verbatim>\<open>del\<close>, \<^verbatim>\<open>putLink\<close> and \<^verbatim>\<open>delLink\<close>, and
  \<^verbatim>\<open>exists\<close> and \<^verbatim>\<open>get\<close> look up; validation returns the entry definition or an error.
  So the operations that look up or compute take the state and return no new one, and
  the operations that change the chain or the store return the new chain or store.
\<close>

record ('c, 'd) Env =
  PrepareHeader ::
    "'c \<Rightarrow> EntryType \<Rightarrow> Entry \<Rightarrow> StatusChange option \<Rightarrow> error + (int \<times> Hash \<times> Header)"
  addEntry :: "'c \<Rightarrow> int \<Rightarrow> Hash \<Rightarrow> Header \<Rightarrow> Entry \<Rightarrow> 'c \<times> error option"
  GetEntry :: "'c \<Rightarrow> Hash \<Rightarrow> Entry \<times> EntryType \<times> error option"
  GetEntryHeader :: "'c \<Rightarrow> Hash \<Rightarrow> error + Header"
  GetEntryDef :: "('c, 'd) Holochain \<Rightarrow> string \<Rightarrow> error + (Zome \<times> EntryDef)"
  MakeValidationPackage :: "('c, 'd) Holochain \<Rightarrow> Package option \<Rightarrow> error + ValidationPackage"
  MakeRibosome :: "('c, 'd) Holochain \<Rightarrow> Zome \<Rightarrow> error + Ribosome"
  Ribosome_ValidateAction ::
    "Ribosome \<Rightarrow> ValidatingAction \<Rightarrow> EntryDef \<Rightarrow> ValidationPackage \<Rightarrow> string list \<Rightarrow> error option"
  ValidatePackagingRequest ::
    "Ribosome \<Rightarrow> ValidatingAction \<Rightarrow> EntryDef \<Rightarrow> PackagingReq \<times> error option"
  MakePackage :: "('c, 'd) Holochain \<Rightarrow> PackagingReq \<Rightarrow> Package \<times> error option"
  Send :: "Protocol \<Rightarrow> peerID \<Rightarrow> MsgType \<Rightarrow> Body \<Rightarrow> error + Body"
  dht_Send :: "Hash \<Rightarrow> MsgType \<Rightarrow> Body \<Rightarrow> error option"
  dht_exists :: "'d \<Rightarrow> Hash \<Rightarrow> Status \<Rightarrow> error option"
  dht_put ::
    "'d \<Rightarrow> Message \<Rightarrow> EntryType \<Rightarrow> Hash \<Rightarrow> peerID \<Rightarrow> bytes \<Rightarrow> Status \<Rightarrow> 'd \<times> error option"
  dht_mod :: "'d \<Rightarrow> Message \<Rightarrow> Hash \<Rightarrow> Hash \<Rightarrow> 'd \<times> error option"
  dht_del :: "'d \<Rightarrow> Message \<Rightarrow> Hash \<Rightarrow> 'd \<times> error option"
  dht_putLink :: "'d \<Rightarrow> Message \<Rightarrow> string \<Rightarrow> string \<Rightarrow> string \<Rightarrow> 'd \<times> error option"
  dht_delLink :: "'d \<Rightarrow> Message \<Rightarrow> string \<Rightarrow> string \<Rightarrow> string \<Rightarrow> 'd \<times> error option"
  dht_get ::
    "'d \<Rightarrow> Hash \<Rightarrow> int \<Rightarrow> int \<Rightarrow> bytes \<times> EntryType \<times> string list \<times> int \<times> error option"
  NewHash :: "string \<Rightarrow> Hash \<times> error option"
  Hash_String :: "Hash \<Rightarrow> string"
  IDB58Encode :: "peerID \<Rightarrow> string"
  json_Unmarshal :: "string \<Rightarrow> error + json"
  json_Unmarshal_LinkMaps :: "string \<Rightarrow> error + (string \<rightharpoonup> string) list"
  json_Unmarshal_LinksEntry :: "string \<Rightarrow> error + LinksEntry"
  Marshal :: "GobEntry \<Rightarrow> error + bytes"
  Unmarshal :: "bytes \<Rightarrow> error + GobEntry"
  ByteEncoder :: "DelEntry \<Rightarrow> error + bytes"
  ByteDecoder :: "bytes \<Rightarrow> error + DelEntry"


section \<open>System validation of entries\<close>

text \<open>
  The loop of \<^verbatim>\<open>sysValidateEntry\<close> over the links of a links entry, each link a JSON
  object read as a map from field names to strings.
\<close>

fun checkLinks :: "('c, 'd) Env \<Rightarrow> (string \<rightharpoonup> string) list \<Rightarrow> error option" where
  "checkLinks w [] = None"
| "checkLinks w (link # links) =
     (case link ''Base'' of
        None \<Rightarrow> Some (ErrorString ''invalid links entry: missing Base'')
      | Some b \<Rightarrow>
          (case snd (NewHash w b) of
             Some err \<Rightarrow> Some (Errorf ''invalid links entry: Base '' err)
           | None \<Rightarrow>
               (case link ''Link'' of
                  None \<Rightarrow> Some (ErrorString ''invalid links entry: missing Link'')
                | Some l \<Rightarrow>
                    (case snd (NewHash w l) of
                       Some err \<Rightarrow> Some (Errorf ''invalid links entry: Link '' err)
                     | None \<Rightarrow>
                         (case link ''Tag'' of
                            None \<Rightarrow> Some (ErrorString ''invalid links entry: missing Tag'')
                          | Some t \<Rightarrow> checkLinks w links)))))"

text \<open>
  What the loop asks of one link: a \<open>Base\<close> and a \<open>Link\<close> that \<^verbatim>\<open>NewHash\<close> accepts, and
  a \<open>Tag\<close>.
\<close>

definition wellFormedLink :: "('c, 'd) Env \<Rightarrow> (string \<rightharpoonup> string) \<Rightarrow> bool" where
  "wellFormedLink w link =
     ((case link ''Base'' of None \<Rightarrow> False | Some b \<Rightarrow> snd (NewHash w b) = None) \<and>
      (case link ''Link'' of None \<Rightarrow> False | Some l \<Rightarrow> snd (NewHash w l) = None) \<and>
      link ''Tag'' \<noteq> None)"

text \<open>\<^verbatim>\<open>entry.Content().(string)\<close>: the assertion panics on a content that is no string.\<close>

definition contentString :: "GobEntry \<Rightarrow> string outcome" where
  "contentString e =
     (case C e of
        None \<Rightarrow> Panic (RuntimePanic ''interface conversion: interface is nil, not string'')
      | Some s \<Rightarrow> Returns s)"

definition sysValidateEntry :: "('c, 'd) Env \<Rightarrow> EntryDef \<Rightarrow> Entry \<Rightarrow> error option outcome" where
  "sysValidateEntry w d entry =
     (case entry of
        None \<Rightarrow> Returns (Some (ErrorString ''nil entry invalid''))
      | Some e \<Rightarrow>
          (case validator d of
             Some validate \<Rightarrow>
               (if DataFormat d = DataFormatJSON then
                  (case contentString e of
                     Panic p \<Rightarrow> Panic p
                   | Returns s \<Rightarrow>
                       (case json_Unmarshal w s of
                          Inl err \<Rightarrow> Returns (Some err)
                        | Inr input \<Rightarrow> Returns (validate (StructuredInput input))))
                else Returns (validate (OpaqueInput e)))
           | None \<Rightarrow>
               (if DataFormat d = DataFormatLinks then
                  (case contentString e of
                     Panic p \<Rightarrow> Panic p
                   | Returns s \<Rightarrow>
                       (case json_Unmarshal_LinkMaps w s of
                          Inl err \<Rightarrow> Returns (Some (Errorf ''invalid links entry, invalid json: '' err))
                        | Inr l \<Rightarrow>
                            (if length l = 0 then
                               Returns (Some (ErrorString
                                 ''invalid links entry: you must specify at least one link''))
                             else Returns (checkLinks w l))))
                else Returns None)))"

section \<open>Validation of actions\<close>

fun SysValidation ::
  "('c, 'd) Env \<Rightarrow> ('c, 'd) Holochain \<Rightarrow> ValidatingAction \<Rightarrow> EntryDef \<Rightarrow> peerID list
     \<Rightarrow> error option outcome" where
  "SysValidation w h (Committing (ActionCommit entryType entry)) d sources =
     sysValidateEntry w d entry"
| "SysValidation w h (ActionPut entryType entry header) d sources =
     sysValidateEntry w d entry"
| "SysValidation w h (Committing (ActionMod entryType entry header0 replaces)) d sources =
     (if DataFormat d = DataFormatLinks then Returns (Some (ErrorString ''Can't mod Links entry''))
      else
        (case GetEntryHeader w (chain h) replaces of
           Inl err \<Rightarrow> Returns (Some err)
         | Inr header \<Rightarrow>
             (if Header_Type header \<noteq> entryType then Returns (Some ErrEntryTypeMismatch)
              else sysValidateEntry w d entry)))"
| "SysValidation w h (Committing (ActionDel entryType entry)) d sources =
     (if DataFormat d = DataFormatLinks then Returns (Some (ErrorString ''Can't del Links entry''))
      else
        (case GetEntryHeader w (chain h) (DelEntry_Hash entry) of
           Inl err \<Rightarrow> Returns (Some err)
         | Inr header \<Rightarrow>
             (if Header_Type header \<noteq> entryType then Returns (Some ErrEntryTypeMismatch)
              else Returns None)))"
| "SysValidation w h (ActionLink entryType links validationBase) d sources = Returns None"

fun CheckValidationRequest :: "ValidatingAction \<Rightarrow> EntryDef \<Rightarrow> error option" where
  "CheckValidationRequest (ActionLink entryType links validationBase) def =
     (if DataFormat def \<noteq> DataFormatLinks then Some (ErrorString ''hash not of a linking entry'')
      else None)"
| "CheckValidationRequest a def = None"

definition prepareSources :: "('c, 'd) Env \<Rightarrow> peerID list \<Rightarrow> string list" where
  "prepareSources w sources = map (IDB58Encode w) sources"

text \<open>
  \<^verbatim>\<open>ValidateAction\<close> returns the entry definition, which stays nil for the three system
  entry types, or the error.
\<close>

definition ValidateAction ::
  "('c, 'd) Env \<Rightarrow> ('c, 'd) Holochain \<Rightarrow> ValidatingAction \<Rightarrow> EntryType \<Rightarrow> Package option
     \<Rightarrow> peerID list \<Rightarrow> (error + EntryDef option) outcome" where
  "ValidateAction w h a entryType pkg sources =
     (case entryType of
        DNAEntryType \<Rightarrow> Returns (Inr None)
      | KeyEntryType \<Rightarrow> Returns (Inr None)
      | AgentEntryType \<Rightarrow> Returns (Inr None)
      | AppEntryType t \<Rightarrow>
          (case GetEntryDef w h t of
             Inl err \<Rightarrow> Returns (Inl err)
           | Inr (z, d) \<Rightarrow>
               (case MakeValidationPackage w h pkg of
                  Inl err \<Rightarrow> Returns (Inl err)
                | Inr vpkg \<Rightarrow>
                    (case SysValidation w h a d sources of
                       Panic p \<Rightarrow> Panic p
                     | Returns (Some err) \<Rightarrow> Returns (Inl err)
                     | Returns None \<Rightarrow>
                         (case MakeRibosome w h z of
                            Inl err \<Rightarrow> Returns (Inl err)
                          | Inr n \<Rightarrow>
                              (case Ribosome_ValidateAction w n a d vpkg (prepareSources w sources) of
                                 Some err \<Rightarrow> Returns (Inl err)
                               | None \<Rightarrow> Returns (Inr (Some d))))))))"

section \<open>Committing to the local chain\<close>

fun Action_EntryType :: "CommittingAction \<Rightarrow> EntryType" where
  "Action_EntryType (ActionCommit entryType entry) = entryType"
| "Action_EntryType (ActionMod entryType entry header0 replaces) = entryType"
| "Action_EntryType (ActionDel entryType entry) = entryType"

text \<open>\<^verbatim>\<open>ActionDel.Entry\<close> encodes the deletion record and panics when that fails.\<close>

fun Action_Entry :: "('c, 'd) Env \<Rightarrow> CommittingAction \<Rightarrow> Entry outcome" where
  "Action_Entry w (ActionCommit entryType entry) = Returns entry"
| "Action_Entry w (ActionMod entryType entry header0 replaces) = Returns entry"
| "Action_Entry w (ActionDel entryType entry) =
     (case ByteEncoder w entry of
        Inl err \<Rightarrow> Panic (PanicError err)
      | Inr buf \<Rightarrow> Returns (Some \<lparr>C = Some buf\<rparr>))"

text \<open>
  The error \<^verbatim>\<open>doCommit\<close> hands back when validation failed: the sentinel is replaced
  by a text with the entry's content, which needs the entry (a method call on the nil
  entry panics).
\<close>

definition invalidEntry :: "Entry \<Rightarrow> error outcome" where
  "invalidEntry entry =
     (case entry of
        None \<Rightarrow> Panic (RuntimePanic ''invalid memory address or nil pointer dereference'')
      | Some e \<Rightarrow> Returns (ErrorString (''Invalid entry: '' @ fmtContent (C e))))"

definition doCommit ::
  "('c, 'd) Env \<Rightarrow> ('c, 'd) Holochain \<Rightarrow> CommittingAction \<Rightarrow> StatusChange option
     \<Rightarrow> (('c, 'd) Holochain \<times> (error + (EntryDef option \<times> Header \<times> Hash))) outcome" where
  "doCommit w h a change =
     (case Action_Entry w a of
        Panic p \<Rightarrow> Panic p
      | Returns entry \<Rightarrow>
          (case PrepareHeader w (chain h) (Action_EntryType a) entry change of
             Inl err \<Rightarrow> Returns (h, Inl err)
           | Inr (l, hash, header) \<Rightarrow>
               (case ValidateAction w h (Committing a) (Action_EntryType a) None [nodeID h] of
                  Panic p \<Rightarrow> Panic p
                | Returns (Inl err) \<Rightarrow>
                    (if err = ValidationFailedErr then
                       (case invalidEntry entry of
                          Panic p \<Rightarrow> Panic p
                        | Returns err' \<Rightarrow> Returns (h, Inl err'))
                     else Returns (h, Inl err))
                | Returns (Inr d) \<Rightarrow>
                    (case addEntry w (chain h) l hash header entry of
                       (c', Some err) \<Rightarrow> Returns (h\<lparr>chain := c'\<rparr>, Inl err)
                     | (c', None) \<Rightarrow>
                         Returns (h\<lparr>chain := c'\<rparr>, Inr (d, header, EntryLink header))))))"

section \<open>The commit action\<close>

text \<open>
  The loop of \<^verbatim>\<open>ActionCommit.Do\<close> over the links of a committed links entry. \<open>bases\<close>
  is the map of the bases already served; a base not yet in it gets one
  \<^verbatim>\<open>LINK_REQUEST\<close>, addressed to the hash \<^verbatim>\<open>NewHash\<close> gives for the base (the error of
  \<^verbatim>\<open>NewHash\<close> and the result of the send are dropped by the source).
\<close>

fun sendLinkRequests ::
  "('c, 'd) Env \<Rightarrow> Hash \<Rightarrow> Link list \<Rightarrow> (string \<rightharpoonup> bool) \<Rightarrow> (Hash \<times> MsgType \<times> Body) list
     \<Rightarrow> (Hash \<times> MsgType \<times> Body) list" where
  "sendLinkRequests w entryHash [] bases msgs = msgs"
| "sendLinkRequests w entryHash (l # ls) bases msgs =
     (case bases (Base l) of
        Some seen \<Rightarrow> sendLinkRequests w entryHash ls bases msgs
      | None \<Rightarrow>
          (let b = fst (NewHash w (Base l)) in
           sendLinkRequests w entryHash ls (bases(Base l \<mapsto> True))
             (msgs @ [(b, LINK_REQUEST, LinkReq b entryHash)])))"


definition ActionCommit_Do ::
  "('c, 'd) Env \<Rightarrow> ('c, 'd) Holochain \<Rightarrow> EntryType \<Rightarrow> Entry
     \<Rightarrow> (('c, 'd) Holochain \<times> Response option \<times> error option) outcome" where
  "ActionCommit_Do w h entryType entry =
     (case doCommit w h (ActionCommit entryType entry) None of
        Panic p \<Rightarrow> Panic p
      | Returns (h1, Inl err) \<Rightarrow> Returns (h1, None, Some err)
      | Returns (h1, Inr (dp, header, entryHash)) \<Rightarrow>
          (case dp of
             None \<Rightarrow> Panic (RuntimePanic ''invalid memory address or nil pointer dereference'')
           | Some d \<Rightarrow>
               (if DataFormat d = DataFormatLinks then
                  (case entry of
                     None \<Rightarrow>
                       Panic (RuntimePanic ''invalid memory address or nil pointer dereference'')
                   | Some e \<Rightarrow>
                       (case contentString e of
                          Panic p \<Rightarrow> Panic p
                        | Returns entryStr \<Rightarrow>
                            (case json_Unmarshal_LinksEntry w entryStr of
                               Inl err \<Rightarrow> Returns (h1, None, Some err)
                             | Inr le \<Rightarrow>
                                 Returns
                                   (h1\<lparr>sent := sendLinkRequests w entryHash (Links le) Map.empty (sent h1)\<rparr>,
                                    Some (HashResponse entryHash), None))))
                else if Sharing d = Public then
                  Returns
                    (h1\<lparr>sent := sent h1 @ [(entryHash, PUT_REQUEST, PutReq entryHash)]\<rparr>,
                     Some (HashResponse entryHash),
                     dht_Send w entryHash PUT_REQUEST (PutReq entryHash))
                else Returns (h1, Some (HashResponse entryHash), None))))"

section \<open>The validation phase and the receive handlers\<close>

text \<open>\<^verbatim>\<open>%T\<close> of a message body.\<close>

fun typeName :: "Body \<Rightarrow> string" where
  "typeName (PutReq h) = ''holochain.PutReq''"
| "typeName (GetReqBody r) = ''holochain.GetReq''"
| "typeName (ModReq h n) = ''holochain.ModReq''"
| "typeName (DelReq h b) = ''holochain.DelReq''"
| "typeName (LinkReq b l) = ''holochain.LinkReq''"
| "typeName (ValidateQuery h) = ''holochain.ValidateQuery''"
| "typeName (ValidateResponseBody r) = ''holochain.ValidateResponse''"
| "typeName (OtherBody t) = t"

definition typeAssertionPanic :: "Body \<Rightarrow> string \<Rightarrow> 'a outcome" where
  "typeAssertionPanic b t =
     Panic (RuntimePanic (''interface conversion: interface {} is '' @ typeName b @ '', not '' @ t))"

text \<open>
  \<^verbatim>\<open>RunValidationPhase\<close> asks the source for the material behind \<open>query\<close> and runs
  the handler on the answer. The handler is a closure over the node; here it takes no
  state and returns the node it leaves, and the phase returns the node untouched when
  the handler is not reached.
\<close>

definition RunValidationPhase ::
  "('c, 'd) Env \<Rightarrow> ('c, 'd) Holochain \<Rightarrow> peerID \<Rightarrow> MsgType \<Rightarrow> Hash
     \<Rightarrow> (ValidateResponse \<Rightarrow> (('c, 'd) Holochain \<times> error option) outcome)
     \<Rightarrow> (('c, 'd) Holochain \<times> error option) outcome" where
  "RunValidationPhase w h source msgType query handler =
     (case Send w ValidateProtocol source msgType (ValidateQuery query) of
        Inl err \<Rightarrow> Returns (h, Some err)
      | Inr r \<Rightarrow>
          (case r of
             ValidateResponseBody resp \<Rightarrow> handler resp
           | _ \<Rightarrow>
               Returns (h, Some (ErrorString
                 (''expected ValidateResponse from validator got '' @ typeName r)))))"

definition queued :: "Response option" where
  "queued = Some (StringResponse ''queued'')"

definition ActionPut_handler ::
  "('c, 'd) Env \<Rightarrow> ('c, 'd) Holochain \<Rightarrow> Message \<Rightarrow> Hash \<Rightarrow> ValidateResponse
     \<Rightarrow> (('c, 'd) Holochain \<times> error option) outcome" where
  "ActionPut_handler w h msg tH resp =
     (let a = ActionPut (Type resp) (Some (Entry resp)) (Some (Header resp)) in
      case ValidateAction w h a (Type resp) (Some (Package resp)) [From msg] of
        Panic p \<Rightarrow> Panic p
      | Returns v \<Rightarrow>
          (let status = (case v of Inl err \<Rightarrow> StatusRejected | Inr d \<Rightarrow> StatusLive) in
           case Marshal w (Entry resp) of
             Inl err \<Rightarrow> Returns (h, Some err)
           | Inr b \<Rightarrow>
               (case dht_put w (dht h) msg (Type resp) tH (From msg) b status of
                  (d', err) \<Rightarrow> Returns (h\<lparr>dht := d'\<rparr>, err))))"

definition ActionPut_Receive ::
  "('c, 'd) Env \<Rightarrow> ('c, 'd) Holochain \<Rightarrow> Message
     \<Rightarrow> (('c, 'd) Holochain \<times> Response option \<times> error option) outcome" where
  "ActionPut_Receive w h msg =
     (case Body msg of
        PutReq tH \<Rightarrow>
          (case RunValidationPhase w h (From msg) VALIDATE_PUT_REQUEST tH
                  (ActionPut_handler w h msg tH) of
             Panic p \<Rightarrow> Panic p
           | Returns (h', err) \<Rightarrow> Returns (h', queued, err))
      | b \<Rightarrow> typeAssertionPanic b ''holochain.PutReq'')"

definition ActionMod_handler ::
  "('c, 'd) Env \<Rightarrow> ('c, 'd) Holochain \<Rightarrow> Message \<Rightarrow> Hash \<Rightarrow> Hash \<Rightarrow> ValidateResponse
     \<Rightarrow> (('c, 'd) Holochain \<times> error option) outcome" where
  "ActionMod_handler w h msg tH tN resp =
     (let a = Committing (ActionMod (Type resp) (Some (Entry resp)) (Some (Header resp)) tH) in
      case ValidateAction w h a (Type resp) (Some (Package resp)) [From msg] of
        Panic p \<Rightarrow> Panic p
      | Returns (Inl err) \<Rightarrow> Returns (h, Some err)
      | Returns (Inr d) \<Rightarrow>
          (case dht_mod w (dht h) msg tH tN of
             (d', err) \<Rightarrow> Returns (h\<lparr>dht := d'\<rparr>, err)))"

definition ActionMod_Receive ::
  "('c, 'd) Env \<Rightarrow> ('c, 'd) Holochain \<Rightarrow> Message
     \<Rightarrow> (('c, 'd) Holochain \<times> Response option \<times> error option) outcome" where
  "ActionMod_Receive w h msg =
     (case Body msg of
        ModReq tH tN \<Rightarrow>
          (case dht_exists w (dht h) tH StatusDefault of
             Some err \<Rightarrow>
               (if err = ErrHashNotFound then Panic (PanicText ''RETRY-MOD NOT IMPLEMENTED'')
                else Returns (h, None, Some err))
           | None \<Rightarrow>
               (case RunValidationPhase w h (From msg) VALIDATE_MOD_REQUEST tN
                       (ActionMod_handler w h msg tH tN) of
                  Panic p \<Rightarrow> Panic p
                | Returns (h', err) \<Rightarrow> Returns (h', queued, err)))
      | b \<Rightarrow> typeAssertionPanic b ''holochain.ModReq'')"

definition ActionDel_handler ::
  "('c, 'd) Env \<Rightarrow> ('c, 'd) Holochain \<Rightarrow> Message \<Rightarrow> ValidateResponse
     \<Rightarrow> (('c, 'd) Holochain \<times> error option) outcome" where
  "ActionDel_handler w h msg resp =
     (case contentString (Entry resp) of
        Panic p \<Rightarrow> Panic p
      | Returns s \<Rightarrow>
          (case ByteDecoder w s of
             Inl err \<Rightarrow> Returns (h, Some err)
           | Inr delEntry \<Rightarrow>
               (let a = Committing (ActionDel (Type resp) delEntry) in
                case ValidateAction w h a (Type resp) (Some (Package resp)) [From msg] of
                  Panic p \<Rightarrow> Panic p
                | Returns (Inl err) \<Rightarrow> Returns (h, Some err)
                | Returns (Inr d) \<Rightarrow>
                    (case dht_del w (dht h) msg (DelEntry_Hash delEntry) of
                       (d', err) \<Rightarrow> Returns (h\<lparr>dht := d'\<rparr>, err)))))"

definition ActionDel_Receive ::
  "('c, 'd) Env \<Rightarrow> ('c, 'd) Holochain \<Rightarrow> Message
     \<Rightarrow> (('c, 'd) Holochain \<times> Response option \<times> error option) outcome" where
  "ActionDel_Receive w h msg =
     (case Body msg of
        DelReq tH tBy \<Rightarrow>
          (case dht_exists w (dht h) tH StatusDefault of
             Some err \<Rightarrow>
               (if err = ErrHashNotFound then Panic (PanicText ''RETRY-DELETE NOT IMPLEMENTED'')
                else Returns (h, None, Some err))
           | None \<Rightarrow>
               (case RunValidationPhase w h (From msg) VALIDATE_DEL_REQUEST tBy
                       (ActionDel_handler w h msg) of
                  Panic p \<Rightarrow> Panic p
                | Returns (h', err) \<Rightarrow> Returns (h', queued, err)))
      | b \<Rightarrow> typeAssertionPanic b ''holochain.DelReq'')"

text \<open>
  The loop of the link handler over the links of the entry: a link on the message's
  base is added or deleted in the store, and \<open>err\<close> keeps the result of the last store
  call.
\<close>

fun applyLinks ::
  "('c, 'd) Env \<Rightarrow> Message \<Rightarrow> string \<Rightarrow> Link list \<Rightarrow> 'd \<times> error option \<Rightarrow> 'd \<times> error option" where
  "applyLinks w msg base [] s = s"
| "applyLinks w msg base (l # ls) (d, err) =
     (if base = Base l then
        (if LinkAction l = DelAction then
           applyLinks w msg base ls (dht_delLink w d msg base (Link l) (Tag l))
         else applyLinks w msg base ls (dht_putLink w d msg base (Link l) (Tag l)))
      else applyLinks w msg base ls (d, err))"

definition ActionLink_handler ::
  "('c, 'd) Env \<Rightarrow> ('c, 'd) Holochain \<Rightarrow> Message \<Rightarrow> Hash \<Rightarrow> ValidateResponse
     \<Rightarrow> (('c, 'd) Holochain \<times> error option) outcome" where
  "ActionLink_handler w h msg tBase resp =
     (case contentString (Entry resp) of
        Panic p \<Rightarrow> Panic p
      | Returns s \<Rightarrow>
          (case json_Unmarshal_LinksEntry w s of
             Inl err \<Rightarrow> Returns (h, Some err)
           | Inr le \<Rightarrow>
               (let a = ActionLink (Type resp) (Links le) tBase in
                case ValidateAction w h a (Type resp) (Some (Package resp)) [From msg] of
                  Panic p \<Rightarrow> Panic p
                | Returns (Inl err) \<Rightarrow> Returns (h, Some err)
                | Returns (Inr d) \<Rightarrow>
                    (case applyLinks w msg (Hash_String w tBase) (Links le) (dht h, None) of
                       (d', err) \<Rightarrow> Returns (h\<lparr>dht := d'\<rparr>, err)))))"

text \<open>
  The link handler asks the store for the base twice, one call after the other. The
  model is sequential: both calls read the store of the node as the handler found it.
\<close>

definition ActionLink_Receive ::
  "('c, 'd) Env \<Rightarrow> ('c, 'd) Holochain \<Rightarrow> Message
     \<Rightarrow> (('c, 'd) Holochain \<times> Response option \<times> error option) outcome" where
  "ActionLink_Receive w h msg =
     (case Body msg of
        LinkReq base links \<Rightarrow>
          (case dht_exists w (dht h) base StatusLive of
             None \<Rightarrow>
               (case dht_exists w (dht h) base StatusLive of
                  Some err \<Rightarrow>
                    (if err = ErrHashNotFound then Panic (PanicText ''RETRY-LINK NOT IMPLEMENTED'')
                     else Returns (h, None, Some err))
                | None \<Rightarrow>
                    (case RunValidationPhase w h (From msg) VALIDATE_LINK_REQUEST links
                            (ActionLink_handler w h msg base) of
                       Panic p \<Rightarrow> Panic p
                     | Returns (h', err) \<Rightarrow> Returns (h', queued, err)))
           | Some err \<Rightarrow> Returns (h, None, Some err))
      | b \<Rightarrow> typeAssertionPanic b ''holochain.LinkReq'')"

section \<open>The get handler\<close>

text \<open>
  Modelled from the spec: the flags of \<^verbatim>\<open>GetMask\<close>, whose declarations are outside the
  sources. The spec has \<^verbatim>\<open>GetMask\<close> a bitfield of \<open>Default\<close>, \<open>Entry\<close>, \<open>EntryType\<close> and
  \<open>Sources\<close>, combinable; \<open>Default\<close> is the empty mask and each flag one bit.
\<close>

definition GetMaskDefault :: int where "GetMaskDefault = 0"
definition GetMaskEntry :: int where "GetMaskEntry = 1"
definition GetMaskEntryType :: int where "GetMaskEntryType = 2"
definition GetMaskSources :: int where "GetMaskSources = 4"

definition ActionGet_Receive ::
  "('c, 'd) Env \<Rightarrow> ('c, 'd) Holochain \<Rightarrow> Message \<Rightarrow> (Response option \<times> error option) outcome" where
  "ActionGet_Receive w h msg =
     (case Body msg of
        GetReqBody req \<Rightarrow>
          (let mask = (if GetMask req = GetMaskDefault then GetMaskEntry else GetMask req) in
           case dht_get w (dht h) (H req) (StatusMask req) (GetMask req OR GetMaskEntryType) of
             (entryData, entryType, sources, status, err) \<Rightarrow>
               (let resp0 = zeroGetResp\<lparr>Sources := sources\<rparr>;
                    resp = (if mask AND GetMaskEntryType \<noteq> 0
                            then resp0\<lparr>GetResp_EntryType := entryType\<rparr> else resp0)
                in
                case err of
                  None \<Rightarrow>
                    (if mask AND GetMaskEntry \<noteq> 0 then
                       (case entryType of
                          DNAEntryType \<Rightarrow> Panic (PanicText ''nobody should actually get the DNA!'')
                        | AgentEntryType \<Rightarrow>
                            Returns (Some (GetRespResponse
                              (resp\<lparr>GetResp_Entry := Some \<lparr>C = Some entryData\<rparr>\<rparr>)), None)
                        | KeyEntryType \<Rightarrow>
                            Returns (Some (GetRespResponse
                              (resp\<lparr>GetResp_Entry := Some \<lparr>C = Some entryData\<rparr>\<rparr>)), None)
                        | AppEntryType t \<Rightarrow>
                            (case Unmarshal w entryData of
                               Inl e \<Rightarrow> Returns (None, Some e)
                             | Inr ge \<Rightarrow>
                                 Returns (Some (GetRespResponse
                                   (resp\<lparr>GetResp_Entry := Some ge\<rparr>)), None)))
                     else Returns (Some (GetRespResponse resp), None))
                | Some e \<Rightarrow>
                    (if e = ErrHashModified then
                       Returns (Some (GetRespResponse (resp\<lparr>FollowHash := entryData\<rparr>)), Some e)
                     else Returns (Some (GetRespResponse resp), Some e))))
      | b \<Rightarrow> typeAssertionPanic b ''holochain.GetReq'')"

section \<open>The store behind the get handler\<close>

text \<open>
  Modelled from the spec: the DHT store and its \<^verbatim>\<open>get\<close>, whose code is outside the
  sources. The spec has the store a mapping from hashes to records of a type, bytes,
  sources, a status among live, rejected, modified and deleted, and a follow hash that
  is set exactly when the status is modified and then points to the replacing hash.
  The status codes form a bitfield with \<open>StatusDefault\<close>, the empty mask, standing for
  live.
\<close>

record Record =
  Record_Type :: EntryType
  Record_Bytes :: bytes
  Record_Sources :: "string list"
  Record_Status :: Status
  Record_FollowHash :: "Hash option"

type_synonym DHTStore = "Hash \<rightharpoonup> Record"

fun statusCode :: "Status \<Rightarrow> int" where
  "statusCode StatusDefault = 0"
| "statusCode StatusLive = 1"
| "statusCode StatusRejected = 2"
| "statusCode StatusDeleted = 4"
| "statusCode StatusModified = 8"

text \<open>
  Modelled from the spec: what \<^verbatim>\<open>dht.get\<close> hands back, in the order data, entry type,
  sources, status, error. A hash without a record is not found. For a record whose
  status is modified the get reports the error \<open>ErrHashModified\<close> and carries the
  replacing hash, as text, in place of the data (the spec: a get of a modified hash
  returns the error hash-modified with the follow hash). Any other record is filtered
  by the status mask, where the default mask stands for live, and is not found when the
  mask leaves its status out; otherwise its bytes, type and status are returned, and
  its sources when the get mask asks for them.
\<close>

definition DHT_get ::
  "(Hash \<Rightarrow> string) \<Rightarrow> DHTStore \<Rightarrow> Hash \<Rightarrow> int \<Rightarrow> int
     \<Rightarrow> bytes \<times> EntryType \<times> string list \<times> int \<times> error option" where
  "DHT_get asText store hash statusMask getMask =
     (case store hash of
        None \<Rightarrow> ([], AppEntryType [], [], 0, Some ErrHashNotFound)
      | Some r \<Rightarrow>
          (let sources = (if getMask AND GetMaskSources \<noteq> 0 then Record_Sources r else []) in
           if Record_Status r = StatusModified then
             ((case Record_FollowHash r of None \<Rightarrow> [] | Some f \<Rightarrow> asText f),
              Record_Type r, sources, statusCode StatusModified, Some ErrHashModified)
           else if statusCode (Record_Status r) AND
                     (if statusMask = statusCode StatusDefault then statusCode StatusLive
                      else statusMask) = 0 then
             ([], AppEntryType [], [], 0, Some ErrHashNotFound)
           else (Record_Bytes r, Record_Type r, sources, statusCode (Record_Status r), None)))"

section \<open>Answering a validation request\<close>

text \<open>
  The second half of \<^verbatim>\<open>GetValidationResponse\<close>: the switch on the type of the
  response built so far.
\<close>

definition validationResponseFor ::
  "('c, 'd) Env \<Rightarrow> ('c, 'd) Holochain \<Rightarrow> ValidatingAction \<Rightarrow> ValidateResponse
     \<Rightarrow> (ValidateResponse \<times> error option) outcome" where
  "validationResponseFor w h a resp =
     (case Type resp of
        DNAEntryType \<Rightarrow> Panic (PanicText ''attempt to get validation response for DNA'')
      | KeyEntryType \<Rightarrow> Returns (resp, None)
      | AgentEntryType \<Rightarrow> Returns (resp, None)
      | AppEntryType t \<Rightarrow>
          (case GetEntryDef w h t of
             Inl err \<Rightarrow> Returns (resp, Some err)
           | Inr (z, def) \<Rightarrow>
               (case CheckValidationRequest a def of
                  Some err \<Rightarrow> Returns (resp, Some err)
                | None \<Rightarrow>
                    (case MakeRibosome w h z of
                       Inl err \<Rightarrow> Returns (resp, Some err)
                     | Inr n \<Rightarrow>
                         (case ValidatePackagingRequest w n a def of
                            (req, err) \<Rightarrow>
                              (case MakePackage w h req of
                                 (pkg, err') \<Rightarrow> Returns (resp\<lparr>Package := pkg\<rparr>, err')))))))"

definition GetValidationResponse ::
  "('c, 'd) Env \<Rightarrow> ('c, 'd) Holochain \<Rightarrow> ValidatingAction \<Rightarrow> Hash
     \<Rightarrow> (ValidateResponse \<times> error option) outcome" where
  "GetValidationResponse w h a hash =
     (case GetEntry w (chain h) hash of
        (entry, entryType, err) \<Rightarrow>
          (let resp = zeroValidateResponse\<lparr>Type := entryType\<rparr> in
           case err of
             Some e \<Rightarrow>
               (if e = ErrHashNotFound then
                  (if Hash_String w hash = nodeIDStr h then
                     validationResponseFor w h a (resp\<lparr>Type := KeyEntryType\<rparr>)
                   else Returns (resp, Some e))
                else Returns (resp, Some e))
           | None \<Rightarrow>
               (case entry of
                  None \<Rightarrow>
                    Panic (RuntimePanic
                      ''interface conversion: interface is nil, not *holochain.GobEntry'')
                | Some ge \<Rightarrow>
                    (case GetEntryHeader w (chain h) hash of
                       Inl e \<Rightarrow> Returns (resp\<lparr>Entry := ge\<rparr>, Some e)
                     | Inr header \<Rightarrow>
                         validationResponseFor w h a (resp\<lparr>Entry := ge, Header := header\<rparr>)))))"

section \<open>The bootstrap client\<close>

record BSReq =
  Version :: int
  NodeID :: string
  NodeAddr :: string
  ReturnAddr :: string

record BSResp =
  Req :: BSReq
  Remote :: string
  LastSeen :: int

datatype Multiaddr = MkMultiaddr string

record PeerInfo =
  ID :: peerID
  Addrs :: "Multiaddr list"

text \<open>The two library calls of the bootstrap client that can fail.\<close>

record BSLib =
  IDB58Decode :: "string \<Rightarrow> error + peerID"
  NewMultiaddr :: "string \<Rightarrow> error + Multiaddr"

text \<open>
  \<^verbatim>\<open>strings.Split(s, sep)\<close> for a separator of one character: the pieces of \<open>s\<close>
  between the separators, one piece more than there are separators.
\<close>

fun Split :: "string \<Rightarrow> char \<Rightarrow> string list" where
  "Split [] sep = [[]]"
| "Split (c # cs) sep =
     (if c = sep then [] # Split cs sep
      else (case Split cs sep of
              [] \<Rightarrow> [[c]]
            | piece # pieces \<Rightarrow> (c # piece) # pieces))"

text \<open>
  The host and the port that \<^verbatim>\<open>checkBSResponses\<close> settles on for one response: both
  start empty; the return address sets them when it splits into two pieces at \<open>:\<close>; an
  empty host then falls back on the remote address and the node's own address.
\<close>

definition fromReturnAddr :: "BSResp \<Rightarrow> string \<times> string" where
  "fromReturnAddr r =
     (if ReturnAddr (Req r) \<noteq> [] then
        (let x = Split (ReturnAddr (Req r)) (CHR '':'') in
         if length x = 2 then (x ! 0, x ! 1) else ([], []))
      else ([], []))"

definition hostPort :: "BSResp \<Rightarrow> string \<times> string" where
  "hostPort r =
     (case fromReturnAddr r of
        (host, port) \<Rightarrow>
          (if host = [] then
             (let x = Split (Remote r) (CHR '':'');
                  y = Split (NodeAddr (Req r)) (CHR ''/'')
              in (hd x, last y))
           else (host, port)))"

definition peerAddr :: "BSResp \<Rightarrow> string" where
  "peerAddr r = (case hostPort r of (host, port) \<Rightarrow> ''/ip4/'' @ host @ ''/tcp/'' @ port)"

text \<open>
  The loop of \<^verbatim>\<open>checkBSResponses\<close>. The state is the list of the peers handed to
  \<^verbatim>\<open>h.AddPeer\<close> (newest last) and \<open>err\<close>. The source hands a peer over in a goroutine
  that stores the result in \<open>err\<close> at some later time; the model leaves \<open>err\<close> as the
  loop's own assignments set it.
\<close>

fun checkBSLoop ::
  "BSLib \<Rightarrow> string \<Rightarrow> BSResp list \<Rightarrow> PeerInfo list \<times> error option
     \<Rightarrow> PeerInfo list \<times> error option" where
  "checkBSLoop lib myNodeID [] s = s"
| "checkBSLoop lib myNodeID (r # rs) (added, err) =
     (case IDB58Decode lib (NodeID (Req r)) of
        Inl e \<Rightarrow> checkBSLoop lib myNodeID rs (added, Some e)
      | Inr peer \<Rightarrow>
          (case NewMultiaddr lib (peerAddr r) of
             Inl e \<Rightarrow> checkBSLoop lib myNodeID rs (added, Some e)
           | Inr addr \<Rightarrow>
               (if NodeID (Req r) \<noteq> myNodeID then
                  checkBSLoop lib myNodeID rs (added @ [\<lparr>ID = peer, Addrs = [addr]\<rparr>], None)
                else checkBSLoop lib myNodeID rs (added, None))))"

definition checkBSResponses ::
  "BSLib \<Rightarrow> ('c, 'd) Holochain \<Rightarrow> BSResp list \<Rightarrow> PeerInfo list \<times> error option" where
  "checkBSResponses lib h nodes = checkBSLoop lib (nodeIDStr h) nodes ([], None)"

section \<open>A small node to run the model on\<close>

text \<open>
  A concrete environment for evaluating the definitions: the chain is the list of its
  headers and entries, the hash of a content \<open>x\<close> is \<open>Qm\<close> followed by \<open>x\<close>, the store is
  a list of records (hash, type, bytes, status, replacing hash), the application knows
  the public type \<open>post\<close>, the private type \<open>draft\<close> and the links type \<open>follow\<close>, and its
  validation rejects every content that starts with \<open>bad\<close>. Links entries are written
  \<open>base,link,tag\<close>, one link after the other with \<open>;\<close> between them, in place of JSON.
  The peer \<open>peerA\<close> answers a validation query for the hash of \<open>x\<close> with the entry \<open>x\<close>,
  the peer \<open>peerNil\<close> with an entry of nil content; an entry of nil content does not
  serialise; and a message for the hash of \<open>lost\<close> finds no peer.
\<close>

type_synonym demoChain = "(Header \<times> Entry) list"
type_synonym demoDHT = "(Hash \<times> EntryType \<times> bytes \<times> Status \<times> string) list"

definition demoH :: "string \<Rightarrow> Hash" where
  "demoH x = MkHash (''Qm'' @ x)"

definition demo_PrepareHeader ::
  "demoChain \<Rightarrow> EntryType \<Rightarrow> Entry \<Rightarrow> StatusChange option \<Rightarrow> error + (int \<times> Hash \<times> Header)" where
  "demo_PrepareHeader c t entry change =
     (case entry of
        None \<Rightarrow> Inl (ErrorString ''no entry to hash'')
      | Some e \<Rightarrow>
          Inr (int (length c), demoH (''header of '' @ fmtContent (C e)),
               \<lparr>Header_Type = t, EntryLink = demoH (fmtContent (C e))\<rparr>))"

definition demo_addEntry ::
  "demoChain \<Rightarrow> int \<Rightarrow> Hash \<Rightarrow> Header \<Rightarrow> Entry \<Rightarrow> demoChain \<times> error option" where
  "demo_addEntry c l hash header entry =
     (if l = int (length c) then (c @ [(header, entry)], None)
      else (c, Some (ErrorString ''entry index does not match chain length'')))"

definition demo_GetEntry :: "demoChain \<Rightarrow> Hash \<Rightarrow> Entry \<times> EntryType \<times> error option" where
  "demo_GetEntry c hash =
     (case find (\<lambda>p. EntryLink (fst p) = hash) c of
        None \<Rightarrow> (None, AppEntryType [], Some ErrHashNotFound)
      | Some p \<Rightarrow> (snd p, Header_Type (fst p), None))"

definition demo_GetEntryHeader :: "demoChain \<Rightarrow> Hash \<Rightarrow> error + Header" where
  "demo_GetEntryHeader c hash =
     (case find (\<lambda>p. EntryLink (fst p) = hash) c of
        None \<Rightarrow> Inl ErrHashNotFound
      | Some p \<Rightarrow> Inr (fst p))"

definition demoDef :: "string \<Rightarrow> DataFormat \<Rightarrow> Sharing \<Rightarrow> EntryDef" where
  "demoDef n f s = \<lparr>EntryDef_Name = n, DataFormat = f, Sharing = s, validator = None\<rparr>"

text \<open>
  A links definition that also carries a schema validator, one that accepts every
  input; the application has it under the name \<open>checked\<close>.
\<close>

definition demoSchemaLinksDef :: EntryDef where
  "demoSchemaLinksDef =
     \<lparr>EntryDef_Name = ''follow'', DataFormat = DataFormatLinks, Sharing = Public,
      validator = Some (\<lambda>input. None)\<rparr>"

definition demo_GetEntryDef :: "string \<Rightarrow> error + (Zome \<times> EntryDef)" where
  "demo_GetEntryDef t =
     (if t = ''post'' then Inr (MkZome ''blog'', demoDef t (DataFormatOther ''string'') Public)
      else if t = ''draft'' then
        Inr (MkZome ''blog'', demoDef t (DataFormatOther ''string'') (SharingOther ''private''))
      else if t = ''follow'' then Inr (MkZome ''blog'', demoDef t DataFormatLinks Public)
      else if t = ''checked'' then Inr (MkZome ''blog'', demoSchemaLinksDef)
      else Inl (ErrorString ''no definition for entry type''))"

fun demo_entryOf :: "ValidatingAction \<Rightarrow> Entry" where
  "demo_entryOf (Committing (ActionCommit t e)) = e"
| "demo_entryOf (Committing (ActionMod t e header r)) = e"
| "demo_entryOf (ActionPut t e header) = e"
| "demo_entryOf a = None"

definition demo_ValidateAction ::
  "Ribosome \<Rightarrow> ValidatingAction \<Rightarrow> EntryDef \<Rightarrow> ValidationPackage \<Rightarrow> string list \<Rightarrow> error option" where
  "demo_ValidateAction n a d vpkg srcs =
     (case demo_entryOf a of
        None \<Rightarrow> None
      | Some e \<Rightarrow> (if take 3 (fmtContent (C e)) = ''bad'' then Some ValidationFailedErr else None))"

definition demo_Send :: "Protocol \<Rightarrow> peerID \<Rightarrow> MsgType \<Rightarrow> Body \<Rightarrow> error + Body" where
  "demo_Send proto to msgType body =
     (case body of
        ValidateQuery (MkHash s) \<Rightarrow>
          (if to = ''peerA'' \<or> to = ''peerNil'' then
             (let t = AppEntryType (if CHR '','' \<in> set s then ''follow'' else ''post'') in
              Inr (ValidateResponseBody
                \<lparr>Type = t, Entry = \<lparr>C = (if to = ''peerNil'' then None else Some (drop 2 s))\<rparr>,
                 Header = \<lparr>Header_Type = t, EntryLink = MkHash s\<rparr>, Package = zeroPackage\<rparr>))
           else Inl (ErrorString ''no route to peer''))
      | b \<Rightarrow> Inr (OtherBody ''string''))"

definition demo_exists :: "demoDHT \<Rightarrow> Hash \<Rightarrow> Status \<Rightarrow> error option" where
  "demo_exists d hash want =
     (case find (\<lambda>r. fst r = hash) d of
        None \<Rightarrow> Some ErrHashNotFound
      | Some (k, t, b, st, f) \<Rightarrow>
          (if want = StatusDefault \<or> st = want then None else Some ErrHashNotFound))"

definition demo_put ::
  "demoDHT \<Rightarrow> Message \<Rightarrow> EntryType \<Rightarrow> Hash \<Rightarrow> peerID \<Rightarrow> bytes \<Rightarrow> Status \<Rightarrow> demoDHT \<times> error option" where
  "demo_put d msg t hash source b st = (d @ [(hash, t, b, st, [])], None)"

definition demo_setStatus :: "demoDHT \<Rightarrow> Hash \<Rightarrow> Status \<Rightarrow> string \<Rightarrow> demoDHT" where
  "demo_setStatus d hash st f =
     map (\<lambda>(k, t, b, st0, f0). if k = hash then (k, t, b, st, f) else (k, t, b, st0, f0)) d"

definition demo_hashString :: "Hash \<Rightarrow> string" where
  "demo_hashString h = (case h of MkHash s \<Rightarrow> s)"

definition demo_NewHash :: "string \<Rightarrow> Hash \<times> error option" where
  "demo_NewHash s =
     (if take 2 s = ''Qm'' then (MkHash s, None)
      else (NullHash, Some (ErrorString ''input is not a base58 multihash'')))"

definition demo_link :: "string \<Rightarrow> Link" where
  "demo_link s =
     (let x = Split s (CHR '','') in
      \<lparr>Base = x ! 0, Link = x ! 1, Tag = x ! 2, LinkAction = OtherAction []\<rparr>)"

definition demo_LinksEntry :: "string \<Rightarrow> error + LinksEntry" where
  "demo_LinksEntry s =
     (let rows = Split s (CHR '';'') in
      if list_all (\<lambda>row. length (Split row (CHR '','')) = 3) rows
      then Inr \<lparr>Links = map demo_link rows\<rparr>
      else Inl (ErrorString ''invalid character looking for beginning of value''))"

definition demo_linkMap :: "Link \<Rightarrow> (string \<rightharpoonup> string)" where
  "demo_linkMap l = [''Base'' \<mapsto> Base l, ''Link'' \<mapsto> Link l, ''Tag'' \<mapsto> Tag l]"

definition demo_LinkMaps :: "string \<Rightarrow> error + (string \<rightharpoonup> string) list" where
  "demo_LinkMaps s =
     (case demo_LinksEntry s of
        Inl e \<Rightarrow> Inl e
      | Inr le \<Rightarrow> Inr (map demo_linkMap (Links le)))"

definition demoEnv :: "(demoChain, demoDHT) Env" where
  "demoEnv =
     \<lparr>PrepareHeader = demo_PrepareHeader,
      addEntry = demo_addEntry,
      GetEntry = demo_GetEntry,
      GetEntryHeader = demo_GetEntryHeader,
      GetEntryDef = (\<lambda>h. demo_GetEntryDef),
      MakeValidationPackage = (\<lambda>h pkg. Inr (MkValidationPackage [])),
      MakeRibosome = (\<lambda>h z. Inr (MkRibosome ''js'')),
      Ribosome_ValidateAction = demo_ValidateAction,
      ValidatePackagingRequest = (\<lambda>n a d. (MkPackagingReq [], None)),
      MakePackage = (\<lambda>h req. (zeroPackage, None)),
      Send = demo_Send,
      dht_Send = (\<lambda>key msgType body.
        if key = demoH ''lost'' then Some (ErrorString ''no peers to send to'') else None),
      dht_exists = demo_exists,
      dht_put = demo_put,
      dht_mod = (\<lambda>d msg old new. (demo_setStatus d old StatusModified (demo_hashString new), None)),
      dht_del = (\<lambda>d msg hash. (demo_setStatus d hash StatusDeleted [], None)),
      dht_putLink = (\<lambda>d msg base link tag.
        (d @ [(MkHash base, AppEntryType ''link'', link, StatusLive, tag)], None)),
      dht_delLink = (\<lambda>d msg base link tag.
        (filter (\<lambda>r. r \<noteq> (MkHash base, AppEntryType ''link'', link, StatusLive, tag)) d, None)),
      dht_get = (\<lambda>d hash statusMask getMask.
        (case find (\<lambda>r. fst r = hash) d of
           None \<Rightarrow> ([], AppEntryType [], [], 0, Some ErrHashNotFound)
         | Some (k, t, b, st, f) \<Rightarrow>
             (if st = StatusModified then (f, t, [], 8, Some ErrHashModified)
              else (b, t, [], 1, None)))),
      NewHash = demo_NewHash,
      Hash_String = demo_hashString,
      IDB58Encode = (\<lambda>p. p),
      json_Unmarshal = (\<lambda>s. Inr (JString s)),
      json_Unmarshal_LinkMaps = demo_LinkMaps,
      json_Unmarshal_LinksEntry = demo_LinksEntry,
      Marshal = (\<lambda>e. case C e of
                         None \<Rightarrow> Inl (ErrorString ''gob: cannot encode nil value'')
                       | Some s \<Rightarrow> Inr s),
      Unmarshal = (\<lambda>b. Inr \<lparr>C = Some b\<rparr>),
      ByteEncoder = (\<lambda>e. Inr (demo_hashString (DelEntry_Hash e) @ '' '' @ DelEntry_Message e)),
      ByteDecoder = (\<lambda>b. Inr \<lparr>DelEntry_Hash = MkHash (takeWhile (\<lambda>c. c \<noteq> CHR '' '') b),
                                DelEntry_Message = drop 1 (dropWhile (\<lambda>c. c \<noteq> CHR '' '') b)\<rparr>)\<rparr>"

definition demoNode :: "(demoChain, demoDHT) Holochain" where
  "demoNode = \<lparr>chain = [], dht = [], sent = [], nodeID = ''me'', nodeIDStr = ''QmMe''\<rparr>"

text \<open>
  A node that has committed the post \<open>A\<close> and holds it live in its store; a message
  from the peer \<open>peerA\<close>; and what that peer answers when asked to justify the post \<open>x\<close>.
\<close>

definition demoStore :: demoDHT where
  "demoStore = [(demoH ''A'', AppEntryType ''post'', ''A'', StatusLive, [])]"

definition demoNodeA :: "(demoChain, demoDHT) Holochain" where
  "demoNodeA =
     \<lparr>chain = [(\<lparr>Header_Type = AppEntryType ''post'', EntryLink = demoH ''A''\<rparr>, Some \<lparr>C = Some ''A''\<rparr>)],
      dht = demoStore, sent = [], nodeID = ''me'', nodeIDStr = ''QmMe''\<rparr>"

definition demoMsg :: "MsgType \<Rightarrow> Body \<Rightarrow> Message" where
  "demoMsg t b = \<lparr>Msg_Type = t, From = ''peerA'', Body = b\<rparr>"

definition demoAnswer :: "string \<Rightarrow> ValidateResponse" where
  "demoAnswer x =
     \<lparr>Type = AppEntryType ''post'', Entry = \<lparr>C = Some x\<rparr>,
      Header = \<lparr>Header_Type = AppEntryType ''post'', EntryLink = demoH x\<rparr>, Package = zeroPackage\<rparr>"

text \<open>
  A node whose store holds the post \<open>A\<close> as modified, replaced by \<open>QmB\<close>, and the post
  \<open>B\<close> live; a \<^verbatim>\<open>GET_REQUEST\<close> for the post \<open>x\<close> with the mask \<open>m\<close>; and a links entry
  with three links on two bases.
\<close>

definition demoNodeModified :: "(demoChain, demoDHT) Holochain" where
  "demoNodeModified =
     \<lparr>chain = [],
      dht = [(demoH ''A'', AppEntryType ''post'', ''A'', StatusModified, ''QmB''),
             (demoH ''B'', AppEntryType ''post'', ''B'', StatusLive, [])],
      sent = [], nodeID = ''me'', nodeIDStr = ''QmMe''\<rparr>"

definition demoGet :: "string \<Rightarrow> int \<Rightarrow> Message" where
  "demoGet x m = demoMsg GET_REQUEST (GetReqBody \<lparr>H = demoH x, StatusMask = 0, GetMask = m\<rparr>)"

definition demoFollow :: string where
  "demoFollow = ''QmA,QmB,likes;QmA,QmC,likes;QmD,QmB,likes''"

text \<open>
  The library calls of the bootstrap client: an ID decodes when it starts with \<open>Qm\<close>;
  a multi-address parses when it reads \<open>/ip4/a.b.c.d/tcp/port\<close> with numbers for
  \<open>a\<close>, \<open>b\<close>, \<open>c\<close>, \<open>d\<close> and \<open>port\<close>.
\<close>

definition isDigits :: "string \<Rightarrow> bool" where
  "isDigits s = (s \<noteq> [] \<and> list_all (\<lambda>c. c \<in> set ''0123456789'') s)"

definition demo_NewMultiaddr :: "string \<Rightarrow> error + Multiaddr" where
  "demo_NewMultiaddr s =
     (case Split s (CHR ''/'') of
        [e, proto, host, transport, port] \<Rightarrow>
          (if e = [] \<and> proto = ''ip4'' \<and> transport = ''tcp'' \<and> isDigits port \<and>
              length (Split host (CHR ''.'')) = 4 \<and> list_all isDigits (Split host (CHR ''.''))
           then Inr (MkMultiaddr s)
           else Inl (ErrorString ''invalid value for protocol''))
      | x \<Rightarrow> Inl (ErrorString ''invalid multiaddr''))"

definition demoLib :: BSLib where
  "demoLib =
     \<lparr>IDB58Decode = (\<lambda>s. if take 2 s = ''Qm'' then Inr (drop 2 s)
                          else Inl (ErrorString ''input is not a base58 multihash'')),
      NewMultiaddr = demo_NewMultiaddr\<rparr>"

definition demoBSResp :: "string \<Rightarrow> string \<Rightarrow> string \<Rightarrow> string \<Rightarrow> BSResp" where
  "demoBSResp nid naddr raddr remote =
     \<lparr>Req = \<lparr>Version = 1, NodeID = nid, NodeAddr = naddr, ReturnAddr = raddr\<rparr>,
      Remote = remote, LastSeen = 0\<rparr>"

text \<open>
  The response of the spec's bootstrap scenario, and three variations: a return address
  with no host, a return address with a host name, and the node's own entry.
\<close>

definition bsScenario :: BSResp where
  "bsScenario = demoBSResp ''QmPeer'' ''/ip4/1.2.3.4/tcp/4001'' ''5.6.7.8:4001'' ''9.9.9.9:1234''"

definition bsPortOnly :: BSResp where
  "bsPortOnly = demoBSResp ''QmPeer'' ''/ip4/1.2.3.4/tcp/5555'' '':4001'' ''9.9.9.9:1234''"

definition bsNamedHost :: BSResp where
  "bsNamedHost = demoBSResp ''QmPeer'' ''/ip4/1.2.3.4/tcp/4001'' ''example.org:4001'' ''9.9.9.9:1234''"

definition bsSelf :: BSResp where
  "bsSelf = demoBSResp ''QmMe'' ''/ip4/1.2.3.4/tcp/4001'' ''5.6.7.8:4001'' ''9.9.9.9:1234''"



text \<open>
  The store of the node with the modified post, as the spec's records: \<open>A\<close> modified and
  replaced by \<open>B\<close>, and \<open>B\<close> live.
\<close>

definition demoRecords :: DHTStore where
  "demoRecords =
     [demoH ''A'' \<mapsto>
        \<lparr>Record_Type = AppEntryType ''post'', Record_Bytes = ''A'', Record_Sources = [''peerA''],
         Record_Status = StatusModified, Record_FollowHash = Some (demoH ''B'')\<rparr>,
      demoH ''B'' \<mapsto>
        \<lparr>Record_Type = AppEntryType ''post'', Record_Bytes = ''B'', Record_Sources = [''peerA''],
         Record_Status = StatusLive, Record_FollowHash = None\<rparr>]"

text \<open>The commit of the spec's rejected-put scenario: a post with the content \<open>badger\<close>.\<close>

definition badger :: CommittingAction where
  "badger = ActionCommit (AppEntryType ''post'') (Some \<lparr>C = Some ''badger''\<rparr>)"

section \<open>Argument counting\<close>

lemma countRequired_filter:
  "countRequired args m = m + int (length (filter (\<lambda>a. \<not> Optional a) args))"
  by (induction args arbitrary: m) auto

text \<open>
  Claim C7. \<^verbatim>\<open>checkArgCount(args, n)\<close> returns no error exactly when the number of
  arguments that are not optional is at most \<open>n\<close> and \<open>n\<close> is at most the length of
  the list; in every other case the error is \<open>ErrWrongNargs\<close>.
\<close>

theorem checkArgCount_iff:
  "checkArgCount args n =
     (if int (required args) \<le> n \<and> n \<le> int (length args) then None else Some ErrWrongNargs)"
  by (auto simp: checkArgCount_def required_def countRequired_filter)

theorem checkArgCount_iff_witness:
  "checkArgCount ActionGet_Args 1 = None \<and> checkArgCount ActionGet_Args 2 = None \<and>
   checkArgCount ActionGet_Args 0 = Some ErrWrongNargs \<and>
   checkArgCount ActionGet_Args 3 = Some ErrWrongNargs"
  using checkArgCount_iff [of ActionGet_Args 0] checkArgCount_iff [of ActionGet_Args 1]
    checkArgCount_iff [of ActionGet_Args 2] checkArgCount_iff [of ActionGet_Args 3]
  by (simp add: required_def ActionGet_Args_def)

section \<open>Committing: validation comes before the chain\<close>

lemma demo_validate_badger:
  "ValidateAction demoEnv demoNode (Committing badger) (AppEntryType ''post'') None [''me'']
     = Returns (Inl ValidationFailedErr)"
  by (simp add: ValidateAction_def demoEnv_def demo_GetEntryDef_def demoDef_def badger_def
      sysValidateEntry_def demo_ValidateAction_def fmtContent_def)

text \<open>
  Claim C1. \<^verbatim>\<open>doCommit\<close> validates the committing action (commit, mod or del) with the
  node itself as the only source, after the header is prepared and before the chain is
  touched. When that validation fails, \<^verbatim>\<open>doCommit\<close> hands back the node as it was, so
  nothing is appended to the chain; the error is the validation's own, except that the
  sentinel \<open>ValidationFailedErr\<close> is replaced by the text \<open>Invalid entry: \<close> followed by
  the entry's content. (Only the nil entry has no content to print: there the source
  panics, and no chain is handed back at all.)
\<close>

theorem doCommit_validation_failure:
  assumes "Action_Entry w a = Returns entry"
    and "PrepareHeader w (chain h) (Action_EntryType a) entry change = Inr (l, hash, header)"
    and "ValidateAction w h (Committing a) (Action_EntryType a) None [nodeID h] = Returns (Inl err)"
  shows "doCommit w h a change =
           (case entry of
              None \<Rightarrow>
                (if err = ValidationFailedErr
                 then Panic (RuntimePanic ''invalid memory address or nil pointer dereference'')
                 else Returns (h, Inl err))
            | Some e \<Rightarrow>
                Returns (h, Inl (if err = ValidationFailedErr
                                 then ErrorString (''Invalid entry: '' @ fmtContent (C e))
                                 else err)))"
  using assms by (simp add: doCommit_def invalidEntry_def split: option.splits)

text \<open>
  When validation succeeds, the chain is the one \<^verbatim>\<open>addEntry\<close> leaves, and the entry hash
  is the header's entry link.
\<close>

lemma doCommit_validation_success:
  assumes "Action_Entry w a = Returns entry"
    and "PrepareHeader w (chain h) (Action_EntryType a) entry change = Inr (l, hash, header)"
    and "ValidateAction w h (Committing a) (Action_EntryType a) None [nodeID h] = Returns (Inr d)"
  shows "doCommit w h a change =
           (case addEntry w (chain h) l hash header entry of
              (c', Some err) \<Rightarrow> Returns (h\<lparr>chain := c'\<rparr>, Inl err)
            | (c', None) \<Rightarrow> Returns (h\<lparr>chain := c'\<rparr>, Inr (d, header, EntryLink header)))"
  using assms by (simp add: doCommit_def)

theorem doCommit_validation_failure_witness:
  "ValidateAction demoEnv demoNode (Committing badger) (Action_EntryType badger) None
       [nodeID demoNode] = Returns (Inl ValidationFailedErr) \<and>
   doCommit demoEnv demoNode badger None =
     Returns (demoNode, Inl (ErrorString ''Invalid entry: badger''))"
proof -
  have e: "Action_Entry demoEnv badger = Returns (Some \<lparr>C = Some ''badger''\<rparr>)"
    by (simp add: badger_def)
  have p: "PrepareHeader demoEnv (chain demoNode) (Action_EntryType badger)
             (Some \<lparr>C = Some ''badger''\<rparr>) None =
           Inr (0, demoH ''header of badger'',
                \<lparr>Header_Type = AppEntryType ''post'', EntryLink = demoH ''badger''\<rparr>)"
    by (simp add: demoEnv_def demo_PrepareHeader_def demoNode_def badger_def fmtContent_def)
  have v: "ValidateAction demoEnv demoNode (Committing badger) (Action_EntryType badger) None
             [nodeID demoNode] = Returns (Inl ValidationFailedErr)"
    using demo_validate_badger by (simp add: badger_def demoNode_def)
  from doCommit_validation_failure [OF e p v] v show ?thesis
    by (simp add: fmtContent_def)
qed

section \<open>The messages of a commit\<close>




text \<open>
  A commit under one of the three system entry types has no entry definition: after
  \<^verbatim>\<open>doCommit\<close> has appended the entry, \<^verbatim>\<open>ActionCommit.Do\<close> reads the format of the nil
  definition and panics.
\<close>

lemma ActionCommit_Do_without_definition:
  assumes "doCommit w h (ActionCommit entryType entry) None =
             Returns (h1, Inr (None, header, entryHash))"
  shows "ActionCommit_Do w h entryType entry =
           Panic (RuntimePanic ''invalid memory address or nil pointer dereference'')"
  using assms by (simp add: ActionCommit_Do_def)








section \<open>Receiving a put\<close>

lemma demo_Send_post:
  "CHR '','' \<notin> set x \<Longrightarrow>
   Send demoEnv ValidateProtocol ''peerA'' t (ValidateQuery (demoH x)) =
     Inr (ValidateResponseBody (demoAnswer x))"
  by (simp add: demoEnv_def demo_Send_def demoH_def demoAnswer_def Let_def)

text \<open>
  Claim C3, amended. A \<^verbatim>\<open>PUT_REQUEST\<close> arrives for the hash \<open>tH\<close> and the source answers
  the validation query with a \<^verbatim>\<open>ValidateResponse\<close>. The handler runs \<^verbatim>\<open>ValidateAction\<close>
  on the put action with the sender as the only source. When that returns and the entry
  of the answer serialises, \<^verbatim>\<open>dht.put\<close> is called once, with the answer's type, \<open>tH\<close>,
  the sender and the bytes, and with the status \<open>StatusRejected\<close> when validation
  returned an error and \<open>StatusLive\<close> when it returned none; the store is the one
  \<^verbatim>\<open>dht.put\<close> leaves. When the entry does not serialise, \<^verbatim>\<open>dht.put\<close> is not called, the
  node stays as it was and the serialisation error is returned. In both cases the reply
  is the string \<open>queued\<close>. (When validation panics, so does the handler.)
\<close>

theorem ActionPut_Receive_outcome:
  assumes "Body msg = PutReq tH"
    and "Send w ValidateProtocol (From msg) VALIDATE_PUT_REQUEST (ValidateQuery tH) =
           Inr (ValidateResponseBody resp)"
  shows "ActionPut_Receive w h msg =
           (case ValidateAction w h (ActionPut (Type resp) (Some (Entry resp)) (Some (Header resp)))
                   (Type resp) (Some (Package resp)) [From msg] of
              Panic p \<Rightarrow> Panic p
            | Returns v \<Rightarrow>
                (case Marshal w (Entry resp) of
                   Inl e \<Rightarrow> Returns (h, Some (StringResponse ''queued''), Some e)
                 | Inr b \<Rightarrow>
                     (case dht_put w (dht h) msg (Type resp) tH (From msg) b
                             (case v of Inl err \<Rightarrow> StatusRejected | Inr d \<Rightarrow> StatusLive) of
                        (d', err) \<Rightarrow>
                          Returns (h\<lparr>dht := d'\<rparr>, Some (StringResponse ''queued''), err))))"
  using assms
  by (simp add: ActionPut_Receive_def RunValidationPhase_def ActionPut_handler_def queued_def
      split: prod.splits outcome.splits sum.splits)

lemma demo_validate_put_badger:
  "ValidateAction demoEnv demoNode
     (ActionPut (AppEntryType ''post'') (Some \<lparr>C = Some ''badger''\<rparr>) hd0)
     (AppEntryType ''post'') pkg [''peerA''] = Returns (Inl ValidationFailedErr)"
  by (simp add: ValidateAction_def demoEnv_def demo_GetEntryDef_def demoDef_def
      sysValidateEntry_def demo_ValidateAction_def fmtContent_def)

lemma demo_validate_put_hello:
  "ValidateAction demoEnv demoNode
     (ActionPut (AppEntryType ''post'') (Some \<lparr>C = Some ''hello''\<rparr>) hd0)
     (AppEntryType ''post'') pkg [''peerA''] =
   Returns (Inr (Some (demoDef ''post'' (DataFormatOther ''string'') Public)))"
  by (simp add: ValidateAction_def demoEnv_def demo_GetEntryDef_def
      sysValidateEntry_def demo_ValidateAction_def fmtContent_def demoDef_def)

theorem ActionPut_Receive_outcome_witness:
  "ActionPut_Receive demoEnv demoNode (demoMsg PUT_REQUEST (PutReq (demoH ''badger''))) =
     Returns (demoNode\<lparr>dht := [(demoH ''badger'', AppEntryType ''post'', ''badger'', StatusRejected, [])]\<rparr>,
              Some (StringResponse ''queued''), None) \<and>
   ActionPut_Receive demoEnv demoNode (demoMsg PUT_REQUEST (PutReq (demoH ''hello''))) =
     Returns (demoNode\<lparr>dht := [(demoH ''hello'', AppEntryType ''post'', ''hello'', StatusLive, [])]\<rparr>,
              Some (StringResponse ''queued''), None)"
proof -
  have 1: "ActionPut_Receive demoEnv demoNode (demoMsg PUT_REQUEST (PutReq (demoH ''badger''))) =
     Returns (demoNode\<lparr>dht := [(demoH ''badger'', AppEntryType ''post'', ''badger'', StatusRejected, [])]\<rparr>,
              Some (StringResponse ''queued''), None)"
    using ActionPut_Receive_outcome [of "demoMsg PUT_REQUEST (PutReq (demoH ''badger''))"
        "demoH ''badger''" demoEnv "demoAnswer ''badger''" demoNode]
      demo_Send_post [of "''badger''"] demo_validate_put_badger
    by (simp add: demoMsg_def demoAnswer_def demoEnv_def demo_put_def demoNode_def)
  have 2: "ActionPut_Receive demoEnv demoNode (demoMsg PUT_REQUEST (PutReq (demoH ''hello''))) =
     Returns (demoNode\<lparr>dht := [(demoH ''hello'', AppEntryType ''post'', ''hello'', StatusLive, [])]\<rparr>,
              Some (StringResponse ''queued''), None)"
    using ActionPut_Receive_outcome [of "demoMsg PUT_REQUEST (PutReq (demoH ''hello''))"
        "demoH ''hello''" demoEnv "demoAnswer ''hello''" demoNode]
      demo_Send_post [of "''hello''"] demo_validate_put_hello
    by (simp add: demoMsg_def demoAnswer_def demoEnv_def demo_put_def demoNode_def)
  from 1 2 show ?thesis by simp
qed

text \<open>
  The claim as stated fails on two pulls that succeed. The peer answers with a post of
  nil content: validation passes, the entry does not serialise, and nothing is stored.
  The peer answers with a links entry of nil content: system validation asserts the
  content to be a string and the handler panics, without a reply.
\<close>

theorem ActionPut_Receive_counterexample:
  "Send demoEnv ValidateProtocol ''peerNil'' VALIDATE_PUT_REQUEST (ValidateQuery (demoH ''hello'')) =
     Inr (ValidateResponseBody
       \<lparr>Type = AppEntryType ''post'', Entry = \<lparr>C = None\<rparr>,
        Header = \<lparr>Header_Type = AppEntryType ''post'', EntryLink = demoH ''hello''\<rparr>,
        Package = zeroPackage\<rparr>) \<and>
   ActionPut_Receive demoEnv demoNode
       \<lparr>Msg_Type = PUT_REQUEST, From = ''peerNil'', Body = PutReq (demoH ''hello'')\<rparr> =
     Returns (demoNode, Some (StringResponse ''queued''),
              Some (ErrorString ''gob: cannot encode nil value'')) \<and>
   Send demoEnv ValidateProtocol ''peerNil'' VALIDATE_PUT_REQUEST (ValidateQuery (demoH demoFollow)) =
     Inr (ValidateResponseBody
       \<lparr>Type = AppEntryType ''follow'', Entry = \<lparr>C = None\<rparr>,
        Header = \<lparr>Header_Type = AppEntryType ''follow'', EntryLink = demoH demoFollow\<rparr>,
        Package = zeroPackage\<rparr>) \<and>
   ActionPut_Receive demoEnv demoNode
       \<lparr>Msg_Type = PUT_REQUEST, From = ''peerNil'', Body = PutReq (demoH demoFollow)\<rparr> =
     Panic (RuntimePanic ''interface conversion: interface is nil, not string'')"
  by (simp add: ActionPut_Receive_def RunValidationPhase_def ActionPut_handler_def queued_def
      demoEnv_def demo_Send_def demoH_def demoFollow_def Let_def ValidateAction_def
      demo_GetEntryDef_def demoDef_def sysValidateEntry_def contentString_def
      demo_ValidateAction_def fmtContent_def)

section \<open>Receiving a mod\<close>

text \<open>
  Claim C4. A \<^verbatim>\<open>MOD_REQUEST\<close> arrives for a hash \<open>tH\<close> that the store has, and the
  source answers the validation query for the new hash \<open>tN\<close>. When \<^verbatim>\<open>ValidateAction\<close>
  returns no error, the handler calls \<^verbatim>\<open>dht.mod\<close> on \<open>tH\<close> and \<open>tN\<close> and the store is the
  one that call leaves. When \<^verbatim>\<open>ValidateAction\<close> returns an error, the handler returns
  the node as it was, with the error and the reply \<open>queued\<close>: no store operation is run,
  so nothing is recorded as rejected.
\<close>

theorem ActionMod_Receive_outcome:
  assumes "Body msg = ModReq tH tN"
    and "dht_exists w (dht h) tH StatusDefault = None"
    and "Send w ValidateProtocol (From msg) VALIDATE_MOD_REQUEST (ValidateQuery tN) =
           Inr (ValidateResponseBody resp)"
    and "ValidateAction w h
           (Committing (ActionMod (Type resp) (Some (Entry resp)) (Some (Header resp)) tH))
           (Type resp) (Some (Package resp)) [From msg] = Returns v"
  shows "ActionMod_Receive w h msg =
           (case v of
              Inl err \<Rightarrow> Returns (h, Some (StringResponse ''queued''), Some err)
            | Inr d \<Rightarrow>
                (case dht_mod w (dht h) msg tH tN of
                   (d', err) \<Rightarrow> Returns (h\<lparr>dht := d'\<rparr>, Some (StringResponse ''queued''), err)))"
  using assms
  by (simp add: ActionMod_Receive_def RunValidationPhase_def ActionMod_handler_def queued_def
      split: prod.splits sum.splits)

lemma demo_validate_mod_bad:
  "ValidateAction demoEnv demoNodeA
     (Committing (ActionMod (AppEntryType ''post'') (Some \<lparr>C = Some ''bad B''\<rparr>) hd0 (demoH ''A'')))
     (AppEntryType ''post'') pkg [''peerA''] = Returns (Inl ValidationFailedErr)"
  by (simp add: ValidateAction_def demoEnv_def demo_GetEntryDef_def demoDef_def
      sysValidateEntry_def demo_ValidateAction_def fmtContent_def demoNodeA_def
      demo_GetEntryHeader_def)

theorem ActionMod_Receive_outcome_witness:
  "dht_exists demoEnv (dht demoNodeA) (demoH ''A'') StatusDefault = None \<and>
   ActionMod_Receive demoEnv demoNodeA (demoMsg MOD_REQUEST (ModReq (demoH ''A'') (demoH ''bad B''))) =
     Returns (demoNodeA, Some (StringResponse ''queued''), Some ValidationFailedErr)"
proof -
  have x: "dht_exists demoEnv (dht demoNodeA) (demoH ''A'') StatusDefault = None"
    by (simp add: demoEnv_def demo_exists_def demoNodeA_def demoStore_def)
  from ActionMod_Receive_outcome [of "demoMsg MOD_REQUEST (ModReq (demoH ''A'') (demoH ''bad B''))"
        "demoH ''A''" "demoH ''bad B''" demoEnv demoNodeA "demoAnswer ''bad B''"
        "Inl ValidationFailedErr"]
      x demo_Send_post [of "''bad B''"] demo_validate_mod_bad
  show ?thesis
    by (simp add: demoMsg_def demoAnswer_def)
qed

section \<open>Validation responses for absent hashes\<close>

text \<open>
  Claim C10. For a hash that the local chain does not have (\<^verbatim>\<open>GetEntry\<close> reports
  \<open>ErrHashNotFound\<close>), \<^verbatim>\<open>GetValidationResponse\<close> succeeds exactly when the text of the
  hash is the node's own ID text; the response then has the key entry type and the zero
  entry, header and package. For every other such hash it returns \<open>ErrHashNotFound\<close>
  itself.
\<close>

theorem GetValidationResponse_absent:
  assumes "GetEntry w (chain h) hash = (entry, t, Some ErrHashNotFound)"
  shows "GetValidationResponse w h a hash =
           (if Hash_String w hash = nodeIDStr h then
              Returns (\<lparr>Type = KeyEntryType, Entry = zeroGobEntry, Header = zeroHeader,
                        Package = zeroPackage\<rparr>, None)
            else Returns (zeroValidateResponse\<lparr>Type := t\<rparr>, Some ErrHashNotFound))"
  using assms
  by (simp add: GetValidationResponse_def validationResponseFor_def zeroValidateResponse_def)

theorem GetValidationResponse_absent_witness:
  "GetValidationResponse demoEnv demoNode (ActionPut (AppEntryType ''post'') None None) (MkHash ''QmMe'') =
     Returns (\<lparr>Type = KeyEntryType, Entry = zeroGobEntry, Header = zeroHeader,
               Package = zeroPackage\<rparr>, None) \<and>
   GetValidationResponse demoEnv demoNode (ActionPut (AppEntryType ''post'') None None) (MkHash ''QmOther'') =
     Returns (zeroValidateResponse, Some ErrHashNotFound)"
proof -
  have g: "GetEntry demoEnv (chain demoNode) k = (None, AppEntryType [], Some ErrHashNotFound)" for k
    by (simp add: demoEnv_def demo_GetEntry_def demoNode_def)
  from GetValidationResponse_absent [OF g [of "MkHash ''QmMe''"]]
       GetValidationResponse_absent [OF g [of "MkHash ''QmOther''"]]
  show ?thesis
    by (simp add: demoEnv_def demo_hashString_def demoNode_def zeroValidateResponse_def)
qed

section \<open>System validation of entries: schema and links\<close>

lemma sysValidateEntry_nil:
  "sysValidateEntry w d None = Returns (Some (ErrorString ''nil entry invalid''))"
  by (simp add: sysValidateEntry_def)

lemma sysValidateEntry_schema:
  assumes "validator d = Some validate" and "C e = Some s"
  shows "sysValidateEntry w d (Some e) =
           (if DataFormat d = DataFormatJSON then
              (case json_Unmarshal w s of
                 Inl err \<Rightarrow> Returns (Some err)
               | Inr input \<Rightarrow> Returns (validate (StructuredInput input)))
            else Returns (validate (OpaqueInput e)))"
  using assms by (simp add: sysValidateEntry_def contentString_def)

lemma checkLinks_None_iff:
  "checkLinks w ls = None \<longleftrightarrow> list_all (wellFormedLink w) ls"
  by (induction ls) (auto simp: wellFormedLink_def split: option.splits)

lemma sysValidateEntry_links_without_schema:
  assumes "validator d = None" and "DataFormat d = DataFormatLinks" and "C e = Some s"
  shows "sysValidateEntry w d (Some e) = Returns None \<longleftrightarrow>
           (\<exists>ls. json_Unmarshal_LinkMaps w s = Inr ls \<and> ls \<noteq> [] \<and> list_all (wellFormedLink w) ls)"
  using assms
  by (auto simp: sysValidateEntry_def contentString_def checkLinks_None_iff split: sum.splits)

text \<open>
  Claim C5. The part of \<^verbatim>\<open>sysValidateEntry\<close> that departs from the claim: for a
  definition that has a schema validator and the links format, a non-nil entry is
  handed to the validator as it is and the validator's verdict is the result. The
  links of the entry are not parsed and not checked (the lemmas above give the parts
  that hold: the nil entry is rejected, a schema validator gets the input its format
  calls for, and without a validator a links entry passes exactly when it parses to at
  least one link and every link is well formed).
\<close>

theorem sysValidateEntry_schema_skips_links:
  assumes "validator d = Some validate" and "DataFormat d = DataFormatLinks"
  shows "sysValidateEntry w d (Some e) = Returns (validate (OpaqueInput e))"
  using assms by (simp add: sysValidateEntry_def)

theorem sysValidateEntry_schema_skips_links_witness:
  "json_Unmarshal_LinkMaps demoEnv ''not links'' =
     Inl (ErrorString ''invalid character looking for beginning of value'') \<and>
   sysValidateEntry demoEnv demoSchemaLinksDef (Some \<lparr>C = Some ''not links''\<rparr>) = Returns None"
proof -
  have "json_Unmarshal_LinkMaps demoEnv ''not links'' =
          Inl (ErrorString ''invalid character looking for beginning of value'')"
    by (simp add: demoEnv_def demo_LinkMaps_def demo_LinksEntry_def)
  moreover have "sysValidateEntry demoEnv demoSchemaLinksDef (Some \<lparr>C = Some ''not links''\<rparr>) = Returns None"
    using sysValidateEntry_schema_skips_links [of demoSchemaLinksDef "\<lambda>input. None" demoEnv
        "\<lparr>C = Some ''not links''\<rparr>"]
    by (simp add: demoSchemaLinksDef_def)
  ultimately show ?thesis by simp
qed

section \<open>Answering a get\<close>

text \<open>
  Claim C6. A \<^verbatim>\<open>GET_REQUEST\<close> is answered from what \<^verbatim>\<open>dht.get\<close> returns for the
  request's hash. The mask \<open>m\<close> that decides what goes into the response is \<open>Entry\<close> when
  the request's mask is \<open>Default\<close>, and the request's mask otherwise. The response holds
  the entry type exactly when \<open>m\<close> includes \<open>EntryType\<close>; it holds the entry exactly when
  \<^verbatim>\<open>dht.get\<close> gave no error and \<open>m\<close> includes \<open>Entry\<close> (the data as it is for the agent
  and key types, unmarshalled for an application type, whose unmarshalling error is
  returned without a response; the DNA is never served); and when \<^verbatim>\<open>dht.get\<close> fails,
  the response comes with that error, and with the data as \<open>FollowHash\<close> when the error
  is \<open>ErrHashModified\<close>. With the store's get as the spec has it, a record whose status
  is modified is answered with \<open>ErrHashModified\<close> and the text of its replacing hash as
  \<open>FollowHash\<close>.
\<close>

theorem ActionGet_Receive_response:
  assumes "Body msg = GetReqBody req"
    and "dht_get w (dht h) (H req) (StatusMask req) (GetMask req OR GetMaskEntryType) =
           (entryData, entryType, sources, status, err)"
  shows "ActionGet_Receive w h msg =
           (let m = (if GetMask req = GetMaskDefault then GetMaskEntry else GetMask req);
                bare = \<lparr>GetResp_Entry = None,
                        GetResp_EntryType =
                          (if m AND GetMaskEntryType \<noteq> 0 then entryType else AppEntryType []),
                        Sources = sources, FollowHash = []\<rparr>
            in if err = None then
                 (if m AND GetMaskEntry \<noteq> 0 then
                    (case entryType of
                       DNAEntryType \<Rightarrow> Panic (PanicText ''nobody should actually get the DNA!'')
                     | AppEntryType t \<Rightarrow>
                         (case Unmarshal w entryData of
                            Inl e \<Rightarrow> Returns (None, Some e)
                          | Inr ge \<Rightarrow>
                              Returns (Some (GetRespResponse (bare\<lparr>GetResp_Entry := Some ge\<rparr>)), None))
                     | _ \<Rightarrow>
                         Returns (Some (GetRespResponse
                           (bare\<lparr>GetResp_Entry := Some \<lparr>C = Some entryData\<rparr>\<rparr>)), None))
                  else Returns (Some (GetRespResponse bare), None))
               else
                 Returns (Some (GetRespResponse
                   (bare\<lparr>FollowHash := (if err = Some ErrHashModified then entryData else [])\<rparr>)), err)) \<and>
         ((entryData, entryType, sources, status, err) =
            DHT_get (Hash_String w) store (H req) (StatusMask req) (GetMask req OR GetMaskEntryType) \<and>
          store (H req) = Some r \<and> Record_Status r = StatusModified \<and> Record_FollowHash r = Some f \<longrightarrow>
          ActionGet_Receive w h msg =
            Returns (Some (GetRespResponse
              \<lparr>GetResp_Entry = None,
               GetResp_EntryType =
                 (if (if GetMask req = GetMaskDefault then GetMaskEntry else GetMask req)
                       AND GetMaskEntryType \<noteq> 0
                  then Record_Type r else AppEntryType []),
               Sources = sources, FollowHash = Hash_String w f\<rparr>), Some ErrHashModified))"
proof -
  have A: "ActionGet_Receive w h msg =
           (let m = (if GetMask req = GetMaskDefault then GetMaskEntry else GetMask req);
                bare = \<lparr>GetResp_Entry = None,
                        GetResp_EntryType =
                          (if m AND GetMaskEntryType \<noteq> 0 then entryType else AppEntryType []),
                        Sources = sources, FollowHash = []\<rparr>
            in if err = None then
                 (if m AND GetMaskEntry \<noteq> 0 then
                    (case entryType of
                       DNAEntryType \<Rightarrow> Panic (PanicText ''nobody should actually get the DNA!'')
                     | AppEntryType t \<Rightarrow>
                         (case Unmarshal w entryData of
                            Inl e \<Rightarrow> Returns (None, Some e)
                          | Inr ge \<Rightarrow>
                              Returns (Some (GetRespResponse (bare\<lparr>GetResp_Entry := Some ge\<rparr>)), None))
                     | _ \<Rightarrow>
                         Returns (Some (GetRespResponse
                           (bare\<lparr>GetResp_Entry := Some \<lparr>C = Some entryData\<rparr>\<rparr>)), None))
                  else Returns (Some (GetRespResponse bare), None))
               else
                 Returns (Some (GetRespResponse
                   (bare\<lparr>FollowHash := (if err = Some ErrHashModified then entryData else [])\<rparr>)), err))"
    using assms
    by (auto simp: ActionGet_Receive_def Let_def zeroGetResp_def
        split: option.splits EntryType.splits sum.splits)
  have B: "ActionGet_Receive w h msg =
            Returns (Some (GetRespResponse
              \<lparr>GetResp_Entry = None,
               GetResp_EntryType =
                 (if (if GetMask req = GetMaskDefault then GetMaskEntry else GetMask req)
                       AND GetMaskEntryType \<noteq> 0
                  then Record_Type r else AppEntryType []),
               Sources = sources, FollowHash = Hash_String w f\<rparr>), Some ErrHashModified)"
    if "(entryData, entryType, sources, status, err) =
            DHT_get (Hash_String w) store (H req) (StatusMask req) (GetMask req OR GetMaskEntryType)"
      and "store (H req) = Some r" and "Record_Status r = StatusModified"
      and "Record_FollowHash r = Some f"
  proof -
    from that have "entryData = Hash_String w f" "entryType = Record_Type r"
      "err = Some ErrHashModified"
      by (simp_all add: DHT_get_def Let_def)
    with A show ?thesis by (simp add: Let_def)
  qed
  from A B show ?thesis by blast
qed

lemma demo_get_B:
  "dht_get demoEnv (dht demoNodeModified) (demoH ''B'') sm gm =
     (''B'', AppEntryType ''post'', [], 1, None)"
  by (simp add: demoEnv_def demoNodeModified_def demoH_def)

lemma demo_get_A:
  "dht_get demoEnv (dht demoNodeModified) (demoH ''A'') sm gm =
     (''QmB'', AppEntryType ''post'', [], 8, Some ErrHashModified)"
  by (simp add: demoEnv_def demoNodeModified_def demoH_def)

lemma demo_get_A_record:
  "(''QmB'', AppEntryType ''post'', [], 8, Some ErrHashModified) =
     DHT_get (Hash_String demoEnv) demoRecords (demoH ''A'') 0 (GetMaskDefault OR GetMaskEntryType)"
  by (simp add: DHT_get_def demoRecords_def demoH_def demoEnv_def demo_hashString_def
      GetMaskDefault_def GetMaskEntryType_def GetMaskSources_def)

theorem ActionGet_Receive_response_witness:
  "ActionGet_Receive demoEnv demoNodeModified (demoGet ''B'' (GetMaskEntry OR GetMaskEntryType)) =
     Returns (Some (GetRespResponse
        \<lparr>GetResp_Entry = Some \<lparr>C = Some ''B''\<rparr>, GetResp_EntryType = AppEntryType ''post'',
         Sources = [], FollowHash = []\<rparr>), None) \<and>
   ActionGet_Receive demoEnv demoNodeModified (demoGet ''B'' GetMaskDefault) =
     Returns (Some (GetRespResponse
        \<lparr>GetResp_Entry = Some \<lparr>C = Some ''B''\<rparr>, GetResp_EntryType = AppEntryType [],
         Sources = [], FollowHash = []\<rparr>), None) \<and>
   ActionGet_Receive demoEnv demoNodeModified (demoGet ''B'' GetMaskEntryType) =
     Returns (Some (GetRespResponse
        \<lparr>GetResp_Entry = None, GetResp_EntryType = AppEntryType ''post'',
         Sources = [], FollowHash = []\<rparr>), None) \<and>
   demoRecords (demoH ''A'') =
     Some \<lparr>Record_Type = AppEntryType ''post'', Record_Bytes = ''A'', Record_Sources = [''peerA''],
           Record_Status = StatusModified, Record_FollowHash = Some (demoH ''B'')\<rparr> \<and>
   ActionGet_Receive demoEnv demoNodeModified (demoGet ''A'' GetMaskDefault) =
     Returns (Some (GetRespResponse
        \<lparr>GetResp_Entry = None, GetResp_EntryType = AppEntryType [],
         Sources = [], FollowHash = ''QmB''\<rparr>), Some ErrHashModified)"
proof -
  have body: "Body (demoGet x m) = GetReqBody \<lparr>H = demoH x, StatusMask = 0, GetMask = m\<rparr>" for x m
    by (simp add: demoGet_def demoMsg_def)
  have u: "Unmarshal demoEnv b = Inr \<lparr>C = Some b\<rparr>" for b
    by (simp add: demoEnv_def)
  have both: "ActionGet_Receive demoEnv demoNodeModified (demoGet ''B'' (GetMaskEntry OR GetMaskEntryType)) =
     Returns (Some (GetRespResponse
        \<lparr>GetResp_Entry = Some \<lparr>C = Some ''B''\<rparr>, GetResp_EntryType = AppEntryType ''post'',
         Sources = [], FollowHash = []\<rparr>), None)"
    using ActionGet_Receive_response [OF body, of demoEnv demoNodeModified "''B''" _
        "''B''" "AppEntryType ''post''" "[]" 1 None, THEN conjunct1]
    by (simp add: demo_get_B u GetMaskDefault_def GetMaskEntry_def GetMaskEntryType_def)
  have dflt: "ActionGet_Receive demoEnv demoNodeModified (demoGet ''B'' GetMaskDefault) =
     Returns (Some (GetRespResponse
        \<lparr>GetResp_Entry = Some \<lparr>C = Some ''B''\<rparr>, GetResp_EntryType = AppEntryType [],
         Sources = [], FollowHash = []\<rparr>), None)"
    using ActionGet_Receive_response [OF body, of demoEnv demoNodeModified "''B''" _
        "''B''" "AppEntryType ''post''" "[]" 1 None, THEN conjunct1]
    by (simp add: demo_get_B u GetMaskDefault_def GetMaskEntry_def GetMaskEntryType_def)
  have type: "ActionGet_Receive demoEnv demoNodeModified (demoGet ''B'' GetMaskEntryType) =
     Returns (Some (GetRespResponse
        \<lparr>GetResp_Entry = None, GetResp_EntryType = AppEntryType ''post'',
         Sources = [], FollowHash = []\<rparr>), None)"
    using ActionGet_Receive_response [OF body, of demoEnv demoNodeModified "''B''" _
        "''B''" "AppEntryType ''post''" "[]" 1 None, THEN conjunct1]
    by (simp add: demo_get_B u GetMaskDefault_def GetMaskEntry_def GetMaskEntryType_def)
  have r: "demoRecords (demoH ''A'') =
     Some \<lparr>Record_Type = AppEntryType ''post'', Record_Bytes = ''A'', Record_Sources = [''peerA''],
           Record_Status = StatusModified, Record_FollowHash = Some (demoH ''B'')\<rparr>"
    by (simp add: demoRecords_def demoH_def)
  have hs: "Hash_String demoEnv (demoH ''B'') = ''QmB''"
    by (simp add: demoEnv_def demo_hashString_def demoH_def)
  have modified: "ActionGet_Receive demoEnv demoNodeModified (demoGet ''A'' GetMaskDefault) =
     Returns (Some (GetRespResponse
        \<lparr>GetResp_Entry = None, GetResp_EntryType = AppEntryType [],
         Sources = [], FollowHash = ''QmB''\<rparr>), Some ErrHashModified)"
    using ActionGet_Receive_response [OF body, of demoEnv demoNodeModified "''A''" GetMaskDefault
        "''QmB''" "AppEntryType ''post''" "[]" 8 "Some ErrHashModified" demoRecords
        "\<lparr>Record_Type = AppEntryType ''post'', Record_Bytes = ''A'', Record_Sources = [''peerA''],
          Record_Status = StatusModified, Record_FollowHash = Some (demoH ''B'')\<rparr>" "demoH ''B''",
        THEN conjunct2]
      demo_get_A demo_get_A_record r hs
    by (simp add: GetMaskDefault_def GetMaskEntry_def GetMaskEntryType_def)
  from both dflt type r modified show ?thesis by simp
qed

section \<open>Bootstrap responses\<close>

text \<open>
  \<^verbatim>\<open>Split\<close> always returns at least one piece, so the first piece of the remote address
  and the last piece of the node address exist.
\<close>

lemma Split_not_Nil: "Split s sep \<noteq> []"
  by (induction s) (auto split: list.splits)

lemma checkBSLoop_set:
  "set (fst (checkBSLoop lib me nodes (added, err))) =
     set added \<union>
     {\<lparr>ID = p, Addrs = [a]\<rparr> | r p a.
        r \<in> set nodes \<and> IDB58Decode lib (NodeID (Req r)) = Inr p \<and>
        NewMultiaddr lib (peerAddr r) = Inr a \<and> NodeID (Req r) \<noteq> me}"
proof (induction nodes arbitrary: added err)
  case Nil
  show ?case by simp
next
  case (Cons r rs)
  show ?case
    by (cases "IDB58Decode lib (NodeID (Req r))"; cases "NewMultiaddr lib (peerAddr r)")
       (auto simp: Cons.IH)
qed

text \<open>
  Claim C8, amended. The address synthesized for a bootstrap response is
  \<open>/ip4/host/tcp/port\<close> with the host and the port of the return address when the
  return address splits at \<open>:\<close> into exactly two pieces and the first, the host, is not
  empty; in every other case the host is the first piece of the remote address and the
  port is the last piece of the node address, split at \<open>/\<close>. The peers handed to
  \<^verbatim>\<open>AddPeer\<close> are exactly those of the responses whose node ID decodes, whose
  synthesized address parses as a multi-address, and whose node ID is not the node's
  own; each is handed over with its decoded ID and its parsed address.
\<close>

theorem checkBSResponses_peers:
  "peerAddr r =
     (let x = Split (ReturnAddr (Req r)) (CHR '':'') in
      if length x = 2 \<and> x ! 0 \<noteq> [] then ''/ip4/'' @ x ! 0 @ ''/tcp/'' @ x ! 1
      else ''/ip4/'' @ hd (Split (Remote r) (CHR '':'')) @ ''/tcp/'' @
           last (Split (NodeAddr (Req r)) (CHR ''/''))) \<and>
   set (fst (checkBSResponses lib h nodes)) =
     {\<lparr>ID = p, Addrs = [a]\<rparr> | r p a.
        r \<in> set nodes \<and> IDB58Decode lib (NodeID (Req r)) = Inr p \<and>
        NewMultiaddr lib (peerAddr r) = Inr a \<and> NodeID (Req r) \<noteq> nodeIDStr h}"
proof
  show "peerAddr r =
     (let x = Split (ReturnAddr (Req r)) (CHR '':'') in
      if length x = 2 \<and> x ! 0 \<noteq> [] then ''/ip4/'' @ x ! 0 @ ''/tcp/'' @ x ! 1
      else ''/ip4/'' @ hd (Split (Remote r) (CHR '':'')) @ ''/tcp/'' @
           last (Split (NodeAddr (Req r)) (CHR ''/'')))"
    by (cases "ReturnAddr (Req r) = []")
       (simp_all add: peerAddr_def hostPort_def fromReturnAddr_def Let_def)
next
  show "set (fst (checkBSResponses lib h nodes)) =
     {\<lparr>ID = p, Addrs = [a]\<rparr> | r p a.
        r \<in> set nodes \<and> IDB58Decode lib (NodeID (Req r)) = Inr p \<and>
        NewMultiaddr lib (peerAddr r) = Inr a \<and> NodeID (Req r) \<noteq> nodeIDStr h}"
    by (simp add: checkBSResponses_def checkBSLoop_set)
qed

theorem checkBSResponses_peers_witness:
  "peerAddr bsScenario = ''/ip4/5.6.7.8/tcp/4001'' \<and>
   checkBSResponses demoLib demoNode [bsScenario, bsSelf] =
     ([\<lparr>ID = ''Peer'', Addrs = [MkMultiaddr ''/ip4/5.6.7.8/tcp/4001'']\<rparr>], None)"
proof -
  have a: "peerAddr bsScenario = ''/ip4/5.6.7.8/tcp/4001''"
    using checkBSResponses_peers [of bsScenario demoLib demoNode "[]", THEN conjunct1]
    by (simp add: bsScenario_def demoBSResp_def)
  have b: "peerAddr bsSelf = ''/ip4/5.6.7.8/tcp/4001''"
    using checkBSResponses_peers [of bsSelf demoLib demoNode "[]", THEN conjunct1]
    by (simp add: bsSelf_def demoBSResp_def)
  have m: "demo_NewMultiaddr ''/ip4/5.6.7.8/tcp/4001'' = Inr (MkMultiaddr ''/ip4/5.6.7.8/tcp/4001'')"
    by (simp add: demo_NewMultiaddr_def isDigits_def)
  have "checkBSResponses demoLib demoNode [bsScenario, bsSelf] =
          ([\<lparr>ID = ''Peer'', Addrs = [MkMultiaddr ''/ip4/5.6.7.8/tcp/4001'']\<rparr>], None)"
    by (simp add: checkBSResponses_def a b m demoLib_def)
       (simp add: bsScenario_def bsSelf_def demoBSResp_def demoNode_def)
  with a show ?thesis by simp
qed

text \<open>
  The claim as stated fails on two responses. A return address \<open>:4001\<close> is not empty
  and splits into exactly two pieces, yet the address is built from the remote address
  and the node address. And a response with a decodable node ID that is not the node's
  own is not handed to \<^verbatim>\<open>AddPeer\<close> when its synthesized address does not parse.
\<close>

theorem checkBSResponses_counterexample:
  "ReturnAddr (Req bsPortOnly) \<noteq> [] \<and>
   Split (ReturnAddr (Req bsPortOnly)) (CHR '':'') = [[], ''4001''] \<and>
   peerAddr bsPortOnly = ''/ip4/9.9.9.9/tcp/5555'' \<and>
   IDB58Decode demoLib (NodeID (Req bsNamedHost)) = Inr ''Peer'' \<and>
   NodeID (Req bsNamedHost) \<noteq> nodeIDStr demoNode \<and>
   checkBSResponses demoLib demoNode [bsNamedHost] =
     ([], Some (ErrorString ''invalid value for protocol''))"
  by (simp add: peerAddr_def hostPort_def fromReturnAddr_def Let_def bsPortOnly_def bsNamedHost_def
      demoBSResp_def checkBSResponses_def demoLib_def demoNode_def demo_NewMultiaddr_def
      isDigits_def)

section \<open>Receiving without the precondition record\<close>

text \<open>
  Claim C9, amended. A \<^verbatim>\<open>MOD_REQUEST\<close> or a \<^verbatim>\<open>DEL_REQUEST\<close> whose target hash the
  store does not have makes the handler panic (\<open>RETRY-MOD NOT IMPLEMENTED\<close>,
  \<open>RETRY-DELETE NOT IMPLEMENTED\<close>) instead of scheduling a retry. A \<^verbatim>\<open>LINK_REQUEST\<close>
  whose base the store does not have live does not panic: the handler returns the
  store's error, with no reply and the node as it was.
\<close>

theorem missing_precondition_record:
  "(Body msg = ModReq tH tN \<and> dht_exists w (dht h) tH StatusDefault = Some ErrHashNotFound \<longrightarrow>
      ActionMod_Receive w h msg = Panic (PanicText ''RETRY-MOD NOT IMPLEMENTED'')) \<and>
   (Body msg = DelReq tH tBy \<and> dht_exists w (dht h) tH StatusDefault = Some ErrHashNotFound \<longrightarrow>
      ActionDel_Receive w h msg = Panic (PanicText ''RETRY-DELETE NOT IMPLEMENTED'')) \<and>
   (Body msg = LinkReq base links \<and> dht_exists w (dht h) base StatusLive = Some err \<longrightarrow>
      ActionLink_Receive w h msg = Returns (h, None, Some err))"
  by (simp add: ActionMod_Receive_def ActionDel_Receive_def ActionLink_Receive_def)

lemma demo_exists_empty:
  "dht_exists demoEnv (dht demoNode) k st = Some ErrHashNotFound"
  by (simp add: demoEnv_def demoNode_def demo_exists_def)

theorem missing_precondition_record_witness:
  "ActionMod_Receive demoEnv demoNode (demoMsg MOD_REQUEST (ModReq (demoH ''A'') (demoH ''B''))) =
     Panic (PanicText ''RETRY-MOD NOT IMPLEMENTED'') \<and>
   ActionDel_Receive demoEnv demoNode (demoMsg DEL_REQUEST (DelReq (demoH ''A'') (demoH ''QmA oops''))) =
     Panic (PanicText ''RETRY-DELETE NOT IMPLEMENTED'') \<and>
   ActionLink_Receive demoEnv demoNode (demoMsg LINK_REQUEST (LinkReq (demoH ''B'') (demoH demoFollow))) =
     Returns (demoNode, None, Some ErrHashNotFound)"
  using missing_precondition_record [of "demoMsg MOD_REQUEST (ModReq (demoH ''A'') (demoH ''B''))"
      "demoH ''A''" "demoH ''B''" demoEnv demoNode]
    missing_precondition_record [of "demoMsg DEL_REQUEST (DelReq (demoH ''A'') (demoH ''QmA oops''))"
      "demoH ''A''" _ demoEnv demoNode "demoH ''QmA oops''"]
    missing_precondition_record [of "demoMsg LINK_REQUEST (LinkReq (demoH ''B'') (demoH demoFollow))"
      _ _ demoEnv demoNode _ "demoH ''B''" "demoH demoFollow" ErrHashNotFound]
    demo_exists_empty
  by (simp add: demoMsg_def)

text \<open>
  The claim as stated fails for links: on a store without the base, the link handler
  returns \<open>ErrHashNotFound\<close> and does not panic.
\<close>

theorem ActionLink_Receive_counterexample:
  "dht_exists demoEnv (dht demoNode) (demoH ''A'') StatusLive = Some ErrHashNotFound \<and>
   ActionLink_Receive demoEnv demoNode
       (demoMsg LINK_REQUEST (LinkReq (demoH ''A'') (demoH ''QmA,QmB,likes''))) =
     Returns (demoNode, None, Some ErrHashNotFound)"
  by (simp add: ActionLink_Receive_def demoMsg_def demo_exists_empty)

end
